theory Spec2Isabelle
  imports Complex_Main "HOL-Library.Sublist"
begin

section \<open>Exceptions\<close>

text \<open>
  The Python exceptions that the modelled code can raise.  A function that can raise
  returns \<open>error + 'a\<close>, with \<open>Inl\<close> for the exception.
\<close>

datatype error =
    ValueError
  | ZeroDivisionError
  | FileNotFoundError
  | FileExistsError
  | IndexError
  | RuntimeError

section \<open>Integers and their decimal text\<close>

text \<open>
  \<open>str(n)\<close> for a Python integer (used by the f-strings that build the run directory's
  name and by \<open>'{}'.format(epoch)\<close>): the decimal digits, most significant first, with a
  leading minus sign for a negative number.
\<close>

definition digit_char :: "nat \<Rightarrow> char" where
  "digit_char d = ''0123456789'' ! d"

function str_pos :: "int \<Rightarrow> string" where
  "str_pos n = (if n < 10 then [digit_char (nat n)] else str_pos (n div 10) @ [digit_char (nat (n mod 10))])"
  by pat_completeness auto
termination
  by (relation "measure nat") auto

declare str_pos.simps [simp del]

definition str_int :: "int \<Rightarrow> string" where
  "str_int i = (if i < 0 then CHR ''-'' # str_pos (- i) else str_pos i)"

text \<open>
  \<open>int(s)\<close> for a string of ASCII characters: surrounding white space is stripped, one
  sign is allowed, and the digits may be separated by single underscores (never leading,
  trailing or doubled).  Anything else raises \<open>ValueError\<close>, which is \<open>None\<close> here.
  Names are taken to be ASCII: the digits and spaces of other scripts, which Python also
  accepts, are outside this model.
\<close>

definition is_digit :: "char \<Rightarrow> bool" where
  "is_digit c = (c \<in> set ''0123456789'')"

definition digit_val :: "char \<Rightarrow> nat" where
  "digit_val c = of_char c - 48"

definition is_space :: "char \<Rightarrow> bool" where
  "is_space c = (c \<in> set [CHR '' '', CHR 0x09, CHR 0x0A, CHR 0x0B, CHR 0x0C, CHR 0x0D,
                           CHR 0x1C, CHR 0x1D, CHR 0x1E, CHR 0x1F])"

definition strip :: "string \<Rightarrow> string" where
  "strip s = rev (dropWhile is_space (rev (dropWhile is_space s)))"

fun digits_val :: "string \<Rightarrow> nat \<Rightarrow> nat option" where
  "digits_val [] acc = Some acc"
| "digits_val (c # cs) acc =
     (if is_digit c then digits_val cs (10 * acc + digit_val c)
      else if c = CHR ''_'' then
        (case cs of
           [] \<Rightarrow> None
         | d # _ \<Rightarrow> if is_digit d then digits_val cs acc else None)
      else None)"

definition parse_nat :: "string \<Rightarrow> nat option" where
  "parse_nat s =
     (case s of
        [] \<Rightarrow> None
      | c # _ \<Rightarrow> if is_digit c then digits_val s 0 else None)"

definition py_int :: "string \<Rightarrow> int option" where
  "py_int s =
     (case strip s of
        [] \<Rightarrow> None
      | c # cs \<Rightarrow>
          if c = CHR ''-'' then map_option (\<lambda>n. - int n) (parse_nat cs)
          else if c = CHR ''+'' then map_option int (parse_nat cs)
          else map_option int (parse_nat (c # cs)))"

section \<open>The run-directory allocator\<close>

text \<open>
  \<open>train\<close> (lines 56-59 for checkpoints, 61-64 for logs) and \<open>test\<close> (lines 188-191)
  repeat one block:
  \<^verbatim>\<open>
    folder = list(map(int, os.listdir(parent)))
    folder = max(folder) + 1 if folder != [] else 0
    os.mkdir(f'{parent}/{folder}', mode=0o777)
    parent = f'{parent}/{folder}'
  \<close>
  A directory is modelled by the list of the names of its immediate children, as
  \<open>os.listdir\<close> returns it.
\<close>

fun map_int :: "string list \<Rightarrow> error + int list" where
  "map_int [] = Inr []"
| "map_int (s # ss) =
     (case py_int s of
        None \<Rightarrow> Inl ValueError
      | Some i \<Rightarrow> (case map_int ss of Inl e \<Rightarrow> Inl e | Inr js \<Rightarrow> Inr (i # js)))"

text \<open>\<open>max\<close> of a non-empty list of integers (the source never calls it on an empty one).\<close>

fun py_max :: "int list \<Rightarrow> error + int" where
  "py_max [] = Inl ValueError"
| "py_max (x # xs) = Inr (fold max xs x)"

text \<open>\<open>os.mkdir\<close> of a new child: it raises when an entry of that name is already there.\<close>

definition mkdir :: "string list \<Rightarrow> string \<Rightarrow> error + string list" where
  "mkdir listing name =
     (if name \<in> set listing then Inl FileExistsError else Inr (listing @ [name]))"

text \<open>
  The block as a function of the parent's path and listing: it returns the path of the
  run directory, its name, and the parent's listing after the \<open>mkdir\<close>.
\<close>

definition next_id :: "int list \<Rightarrow> error + int" where
  "next_id ids =
     (if ids \<noteq> [] then (case py_max ids of Inl e \<Rightarrow> Inl e | Inr m \<Rightarrow> Inr (m + 1)) else Inr 0)"

definition alloc_run_dir :: "string \<Rightarrow> string list \<Rightarrow> error + (string \<times> string \<times> string list)" where
  "alloc_run_dir parent listing =
     (case map_int listing of
        Inl e \<Rightarrow> Inl e
      | Inr ids \<Rightarrow>
          (case next_id ids of
             Inl e \<Rightarrow> Inl e
           | Inr folder \<Rightarrow>
               (case mkdir listing (str_int folder) of
                  Inl e \<Rightarrow> Inl e
                | Inr listing' \<Rightarrow> Inr (parent @ ''/'' @ str_int folder, str_int folder, listing'))))"

text \<open>The value that the digits read so far and one more digit stand for.\<close>

definition dec_step :: "nat \<Rightarrow> char \<Rightarrow> nat" where
  "dec_step a c = 10 * a + digit_val c"

section \<open>Numbers and their two-decimal text\<close>

text \<open>
  Losses and metric values are Python floats in the source.  They are modelled by
  rational numbers: comparisons are exact as they are on floats, sums and quotients are
  exact (the rounding of float arithmetic is outside the model), and there is no NaN and
  no infinity.

  \<open>'{:.2f}'.format(x)\<close> rounds the exact value to the nearest hundredth, a tie going to
  the even neighbour, and prints the sign, the integer part, a point and two digits.
\<close>

definition round_half_even :: "rat \<Rightarrow> int" where
  "round_half_even x =
     (let f = \<lfloor>x\<rfloor>; r = x - of_int f
      in if r < 1 / 2 then f else if 1 / 2 < r then f + 1 else if even f then f else f + 1)"

definition fmt2 :: "rat \<Rightarrow> string" where
  "fmt2 x =
     (let q = round_half_even (\<bar>x\<bar> * 100)
      in (if x < 0 then ''-'' else []) @ str_pos (q div 100) @ ''.'' @
         [digit_char (nat (q mod 100 div 10)), digit_char (nat (q mod 10))])"

section \<open>Tensors and the accuracy metric\<close>

text \<open>
  A tensor is its shape and its elements in row-major order; it is well formed when the
  number of elements is the product of the shape.  Elements are rationals: class indices,
  one-hot entries and scores alike (\<open>.float()\<close> changes nothing here).
\<close>

record tensor =
  shape :: "nat list"
  data :: "rat list"

definition wf_tensor :: "tensor \<Rightarrow> bool" where
  "wf_tensor t = (length (data t) = prod_list (shape t))"

text \<open>The index of the first greatest element of a non-empty list (\<open>torch.argmax\<close> on ties).\<close>

fun argmax_acc :: "rat list \<Rightarrow> nat \<Rightarrow> nat \<Rightarrow> rat \<Rightarrow> nat" where
  "argmax_acc [] i bi bv = bi"
| "argmax_acc (x # xs) i bi bv =
     (if bv < x then argmax_acc xs (i + 1) i x else argmax_acc xs (i + 1) bi bv)"

definition argmax_list :: "rat list \<Rightarrow> nat" where
  "argmax_list xs = (case xs of [] \<Rightarrow> 0 | x # r \<Rightarrow> argmax_acc r 1 0 x)"

text \<open>
  \<open>t.argmax(dim=1)\<close>: axis 1 is reduced to the index of its first greatest entry.  It
  raises when the tensor has fewer than two axes, and when axis 1 is empty.
\<close>

definition argmax_dim1 :: "tensor \<Rightarrow> error + tensor" where
  "argmax_dim1 t =
     (case shape t of
        d0 # d1 # rest \<Rightarrow>
          if d1 = 0 then Inl IndexError
          else
            (let inner = prod_list rest
             in Inr \<lparr>shape = d0 # rest,
                     data = concat (map (\<lambda>i. map (\<lambda>k.
                              of_nat (argmax_list (map (\<lambda>j. data t ! ((i * d1 + j) * inner + k)) [0..<d1])))
                              [0..<inner]) [0..<d0])\<rparr>)
      | _ \<Rightarrow> Inl IndexError)"

text \<open>\<open>t.unsqueeze(1)\<close>: a new axis of size one at position 1.\<close>

definition unsqueeze1 :: "tensor \<Rightarrow> error + tensor" where
  "unsqueeze1 t =
     (case shape t of
        [] \<Rightarrow> Inl IndexError
      | d0 # rest \<Rightarrow> Inr (t\<lparr>shape := d0 # 1 # rest\<rparr>))"

text \<open>\<open>shape[i]\<close> on the tuple of sizes, for a non-negative \<open>i\<close>.\<close>

definition shape_at :: "nat list \<Rightarrow> nat \<Rightarrow> error + nat" where
  "shape_at s i = (if i < length s then Inr (s ! i) else Inl IndexError)"

text \<open>
  \<open>a == b\<close> on tensors broadcasts: the shapes are aligned at their last axes, an axis of
  size one (or a missing one) is repeated, and any other mismatch raises.  The result is
  the list of the comparisons, in row-major order of the broadcast shape.
\<close>

fun bc_rev :: "nat list \<Rightarrow> nat list \<Rightarrow> nat list option" where
  "bc_rev [] ys = Some ys"
| "bc_rev (x # xs) [] = Some (x # xs)"
| "bc_rev (x # xs) (y # ys) =
     (if x = y \<or> y = 1 then map_option ((#) x) (bc_rev xs ys)
      else if x = 1 then map_option ((#) y) (bc_rev xs ys)
      else None)"

definition broadcast_shapes :: "nat list \<Rightarrow> nat list \<Rightarrow> nat list option" where
  "broadcast_shapes a b = map_option rev (bc_rev (rev a) (rev b))"

fun indices :: "nat list \<Rightarrow> nat list list" where
  "indices [] = [[]]"
| "indices (d # ds) = concat (map (\<lambda>i. map ((#) i) (indices ds)) [0..<d])"

definition flat_step :: "nat \<Rightarrow> nat \<times> nat \<Rightarrow> nat" where
  "flat_step acc di = acc * fst di + (if fst di = 1 then 0 else snd di)"

definition flat_index :: "nat list \<Rightarrow> nat list \<Rightarrow> nat" where
  "flat_index s idx = foldl flat_step 0 (zip s (drop (length idx - length s) idx))"

definition tensor_eq :: "tensor \<Rightarrow> tensor \<Rightarrow> error + bool list" where
  "tensor_eq a b =
     (case broadcast_shapes (shape a) (shape b) of
        None \<Rightarrow> Inl RuntimeError
      | Some rs \<Rightarrow>
          Inr (map (\<lambda>idx. data a ! flat_index (shape a) idx = data b ! flat_index (shape b) idx)
                 (indices rs)))"

text \<open>
  The result of \<open>accuracy.calc\<close> is a tensor holding one float: the quotient of an integer
  count by an integer, which torch computes without raising when the divisor is zero.
\<close>

datatype score = Score rat | Inf | NaN

definition true_div :: "nat \<Rightarrow> nat \<Rightarrow> score" where
  "true_div k n = (if n = 0 then (if k = 0 then NaN else Inf) else Score (of_nat k / of_nat n))"

text \<open>
  \<open>accuracy.calc\<close> (src/opennn/metrics/accuracy.py, lines 2-18), in three steps.
  Lines 6-9 reduce the predictions:
  \<^verbatim>\<open>
    if len(shapes) == len(labels.shape) and shapes[1] != labels.shape[1]:
        preds = preds.argmax(dim=1).unsqueeze(1)
    elif len(shapes) > len(labels.shape):
        preds = preds.argmax(dim=1)
  \<close>
\<close>

definition reduce_preds :: "tensor \<Rightarrow> tensor \<Rightarrow> error + tensor" where
  "reduce_preds preds labels =
     (let shapes = shape preds in
      if length shapes = length (shape labels) then
        (case shape_at shapes 1 of
           Inl e \<Rightarrow> Inl e
         | Inr a \<Rightarrow>
             (case shape_at (shape labels) 1 of
                Inl e \<Rightarrow> Inl e
              | Inr b \<Rightarrow>
                  if a \<noteq> b then
                    (case argmax_dim1 preds of Inl e \<Rightarrow> Inl e | Inr p \<Rightarrow> unsqueeze1 p)
                  else Inr preds))
      else if length shapes > length (shape labels) then argmax_dim1 preds
      else Inr preds)"

text \<open>
  Lines 10-12 reduce both tensors when the labels have two axes:
  \<^verbatim>\<open>
    if len(labels.shape) == 2:
        preds = preds.argmax(dim=1).float()
        labels = labels.argmax(dim=1).float()
  \<close>
\<close>

definition reduce_two_axes :: "tensor \<Rightarrow> tensor \<Rightarrow> error + (tensor \<times> tensor)" where
  "reduce_two_axes preds labels =
     (if length (shape labels) = 2 then
        (case argmax_dim1 preds of
           Inl e \<Rightarrow> Inl e
         | Inr p \<Rightarrow> (case argmax_dim1 labels of Inl e \<Rightarrow> Inl e | Inr l \<Rightarrow> Inr (p, l)))
      else Inr (preds, labels))"

text \<open>
  Lines 14-18 count the equal entries and divide by the product of the sizes of the
  labels as they are at that point:
  \<^verbatim>\<open>
    for shape in labels.shape:
        np *= shape
    acc = (preds == labels).sum() / np
  \<close>
\<close>

definition equal_fraction :: "tensor \<Rightarrow> tensor \<Rightarrow> error + score" where
  "equal_fraction preds labels =
     (let np = fold (\<lambda>shape np. np * shape) (shape labels) 1 in
      case tensor_eq preds labels of
        Inl e \<Rightarrow> Inl e
      | Inr eqs \<Rightarrow> Inr (true_div (length (filter id eqs)) np))"

definition accuracy_calc :: "tensor \<Rightarrow> tensor \<Rightarrow> error + score" where
  "accuracy_calc preds labels =
     (case reduce_preds preds labels of
        Inl e \<Rightarrow> Inl e
      | Inr preds1 \<Rightarrow>
          (case reduce_two_axes preds1 labels of
             Inl e \<Rightarrow> Inl e
           | Inr (preds2, labels2) \<Rightarrow> equal_fraction preds2 labels2))"

definition accuracy_name :: string where
  "accuracy_name = ''accuracy''"

section \<open>The collaborators of the loops\<close>

text \<open>
  \<open>train\<close> and \<open>test\<close> (src/opennn_pytorch/algo/traintest.py) receive the model, the
  optimizer, the scheduler, the loss function and the metrics from their caller.  Their
  joint mutable state (the weights, the optimizer's and the scheduler's state) is a value
  of an arbitrary type \<open>'m\<close>, and what the loops call on them is a record of functions.
  A data loader is the finite list of its batches, each a pair of inputs and labels.
\<close>

datatype mode = Training | Evaluating

record ('m, 'x, 'l, 'p, 'w) env =
  forward :: "mode \<Rightarrow> 'm \<Rightarrow> 'x \<Rightarrow> 'p"
  loss_fn :: "'p \<Rightarrow> 'l \<Rightarrow> rat"
  optimize :: "'m \<Rightarrow> 'x \<Rightarrow> 'l \<Rightarrow> 'm"
  scheduler_step :: "'m \<Rightarrow> 'm"
  state_dict :: "'m \<Rightarrow> 'w"
  one_hot_fn :: "int \<Rightarrow> 'l \<Rightarrow> 'l"
  float_str :: "rat \<Rightarrow> string"
  metric_str :: "rat \<Rightarrow> string"

text \<open>
  \<open>forward\<close> is \<open>model(imgs)\<close> after \<open>model.train()\<close> or \<open>model.eval()\<close>;
  \<open>optimize\<close> is \<open>optimizer.zero_grad(); loss.backward(); optimizer.step()\<close> for the batch;
  \<open>one_hot_fn nc\<close> is \<open>F.one_hot(labels, nc).float()\<close>; \<open>float_str\<close> and \<open>metric_str\<close>
  are how an f-string prints a loss and an entry of the array of metric averages.
\<close>

record ('p, 'l) metric =
  name :: string
  calc :: "'p \<Rightarrow> 'l \<Rightarrow> rat"

type_synonym ('x, 'l) dataloader = "('x \<times> 'l) list"

section \<open>The files of a run\<close>

text \<open>
  The two parent directories are their listings.  The run's own directories, created by
  the allocator, are maps from file names to contents: a checkpoint file holds a state
  dictionary, a log file holds text.
\<close>

record 'w fs =
  ckpt_parent :: "string list"
  logs_parent :: "string list"
  ckpt_dir :: "string \<rightharpoonup> 'w"
  logs_dir :: "string \<rightharpoonup> string"

text \<open>\<open>open(path, 'a').write(text)\<close>: the file is created when it is not there.\<close>

definition append_file :: "(string \<rightharpoonup> string) \<Rightarrow> string \<Rightarrow> string \<Rightarrow> (string \<rightharpoonup> string)" where
  "append_file d f txt = d(f \<mapsto> (case d f of None \<Rightarrow> txt | Some old \<Rightarrow> old @ txt))"

text \<open>\<open>os.rename(src, dst)\<close> inside one directory: it raises when \<open>src\<close> is not there.\<close>

definition rename :: "(string \<rightharpoonup> 'w) \<Rightarrow> string \<Rightarrow> string \<Rightarrow> error + (string \<rightharpoonup> 'w)" where
  "rename d src dst =
     (case d src of
        None \<Rightarrow> Inl FileNotFoundError
      | Some c \<Rightarrow> Inr ((d(src := None))(dst \<mapsto> c)))"

text \<open>The names of the checkpoint files (lines 123, 129 and 155).\<close>

definition plan_name :: "int \<Rightarrow> rat \<Rightarrow> string" where
  "plan_name epoch valid_loss = ''plan_'' @ str_int epoch @ ''_'' @ fmt2 valid_loss @ ''.pt''"

definition best_pt :: string where
  "best_pt = ''best.pt''"

definition best_name :: "int \<Rightarrow> rat \<Rightarrow> string" where
  "best_name epoch loss = ''best_'' @ str_int epoch @ ''_'' @ fmt2 loss @ ''.pt''"

section \<open>The passes over the batches\<close>

text \<open>
  The training pass (lines 78-96) carries the model, the running loss and the running
  sum of every metric through the batches.
\<close>

definition encode :: "('m, 'x, 'l, 'p, 'w) env \<Rightarrow> bool \<Rightarrow> int \<Rightarrow> 'l \<Rightarrow> 'l" where
  "encode E one_hot nc labels = (if one_hot then one_hot_fn E nc labels else labels)"

definition add_metrics :: "('p, 'l) metric list \<Rightarrow> 'p \<Rightarrow> 'l \<Rightarrow> rat list \<Rightarrow> rat list" where
  "add_metrics metrics preds labels mvct =
     map (\<lambda>(acc, metric). acc + calc metric preds labels) (zip mvct metrics)"

fun train_pass ::
  "('m, 'x, 'l, 'p, 'w) env \<Rightarrow> ('p, 'l) metric list \<Rightarrow> bool \<Rightarrow> int \<Rightarrow> ('x, 'l) dataloader \<Rightarrow>
   'm \<times> rat \<times> rat list \<Rightarrow> 'm \<times> rat \<times> rat list" where
  "train_pass E metrics one_hot nc [] acc = acc"
| "train_pass E metrics one_hot nc ((imgs, labels) # batches) (m, train_loss, train_mvct) =
     (let labels' = encode E one_hot nc labels;
          preds = forward E Training m imgs;
          loss = loss_fn E preds labels';
          train_mvct' = add_metrics metrics preds labels' train_mvct;
          m' = optimize E m imgs labels'
      in train_pass E metrics one_hot nc batches (m', train_loss + loss, train_mvct'))"

text \<open>
  The pass without gradients (lines 100-114 of \<open>train\<close>, lines 199-213 of \<open>test\<close>): the
  model does not change.
\<close>

fun eval_pass ::
  "('m, 'x, 'l, 'p, 'w) env \<Rightarrow> ('p, 'l) metric list \<Rightarrow> bool \<Rightarrow> int \<Rightarrow> 'm \<Rightarrow> ('x, 'l) dataloader \<Rightarrow>
   rat \<times> rat list \<Rightarrow> rat \<times> rat list" where
  "eval_pass E metrics one_hot nc m [] acc = acc"
| "eval_pass E metrics one_hot nc m ((imgs, labels) # batches) (valid_loss, valid_mvct) =
     (let labels' = encode E one_hot nc labels;
          preds = forward E Evaluating m imgs;
          loss = loss_fn E preds labels';
          valid_mvct' = add_metrics metrics preds labels' valid_mvct
      in eval_pass E metrics one_hot nc m batches (valid_loss + loss, valid_mvct'))"

text \<open>
  The averages of one epoch (lines 71-119).  The accumulators start at zero in every
  epoch.  Dividing the arrays of metric sums (lines 116-117) is numpy's division and
  does not raise; dividing a float by the integer zero (lines 118-119) raises.
\<close>

record 'm averages =
  trained :: 'm
  train_loss :: rat
  valid_loss :: rat
  train_mvct :: "rat list"
  valid_mvct :: "rat list"

definition epoch_averages ::
  "('m, 'x, 'l, 'p, 'w) env \<Rightarrow> ('p, 'l) metric list \<Rightarrow> bool \<Rightarrow> int \<Rightarrow>
   ('x, 'l) dataloader \<Rightarrow> ('x, 'l) dataloader \<Rightarrow> 'm \<Rightarrow> 'm \<times> (error + 'm averages)" where
  "epoch_averages E metrics one_hot nc train_dataloader valid_dataloader m =
     (case train_pass E metrics one_hot nc train_dataloader (m, 0, replicate (length metrics) 0) of
        (m1, tsum, tmet) \<Rightarrow>
          (case eval_pass E metrics one_hot nc m1 valid_dataloader (0, replicate (length metrics) 0) of
             (vsum, vmet) \<Rightarrow>
               if length train_dataloader = 0 then (m1, Inl ZeroDivisionError)
               else if length valid_dataloader = 0 then (m1, Inl ZeroDivisionError)
               else
                 (m1, Inr \<lparr>trained = m1,
                           train_loss = tsum / of_nat (length train_dataloader),
                           valid_loss = vsum / of_nat (length valid_dataloader),
                           train_mvct = map (\<lambda>v. v / of_nat (length train_dataloader)) tmet,
                           valid_mvct = map (\<lambda>v. v / of_nat (length valid_dataloader)) vmet\<rparr>)))"

section \<open>The log lines\<close>

text \<open>
  Lines 131-151: the metrics' entries follow the two losses, and only the entry of the
  last validation metric ends the line.
\<close>

definition train_str :: "('m, 'x, 'l, 'p, 'w) env \<Rightarrow> string list \<Rightarrow> rat list \<Rightarrow> string" where
  "train_str E metric_names mvct =
     concat (map (\<lambda>(n, v). ''train_'' @ n @ '': '' @ metric_str E v @ '' '') (zip metric_names mvct))"

fun valid_str :: "('m, 'x, 'l, 'p, 'w) env \<Rightarrow> (string \<times> rat) list \<Rightarrow> string" where
  "valid_str E [] = []"
| "valid_str E [(n, v)] = ''valid_'' @ n @ '': '' @ metric_str E v @ [CHR 0x0A]"
| "valid_str E ((n, v) # rest) = ''valid_'' @ n @ '': '' @ metric_str E v @ '' '' @ valid_str E rest"

definition log_line ::
  "('m, 'x, 'l, 'p, 'w) env \<Rightarrow> string list \<Rightarrow> int \<Rightarrow> int \<Rightarrow> 'm averages \<Rightarrow> string" where
  "log_line E metric_names epoch epochs a =
     ''epoch: '' @ str_int (epoch + 1) @ ''/'' @ str_int epochs @
     '' train loss: '' @ float_str E (train_loss a) @
     '' valid loss: '' @ float_str E (valid_loss a) @ '' '' @
     train_str E metric_names (train_mvct a) @
     valid_str E (zip metric_names (valid_mvct a))"

text \<open>Lines 217-226 of \<open>test\<close>.\<close>

fun test_str :: "('m, 'x, 'l, 'p, 'w) env \<Rightarrow> (string \<times> rat) list \<Rightarrow> string" where
  "test_str E [] = []"
| "test_str E [(n, v)] = n @ '': '' @ metric_str E v @ [CHR 0x0A]"
| "test_str E ((n, v) # rest) = n @ '': '' @ metric_str E v @ '' '' @ test_str E rest"

section \<open>The training loop\<close>

text \<open>
  The variables that the epoch loop of \<open>train\<close> carries: the model, the files, and the
  best validation loss so far with its epoch.
\<close>

record ('m, 'w) loop_state =
  model :: 'm
  files :: "'w fs"
  best_loss :: rat
  best_epoch :: int

text \<open>Lines 67-68: the values the loop starts from.\<close>

definition init_state :: "'m \<Rightarrow> 'w fs \<Rightarrow> ('m, 'w) loop_state" where
  "init_state m f = \<lparr>model = m, files = f, best_loss = 99999999, best_epoch = 0\<rparr>"

text \<open>
  Lines 121-129, the checkpoint decisions of an epoch, given its validation loss and the
  weights to save.  \<open>epoch % save_every\<close> raises when \<open>save_every\<close> is zero, before anything
  is written.
\<close>

definition save_ckpt :: "string \<Rightarrow> 'w \<Rightarrow> ('m, 'w) loop_state \<Rightarrow> ('m, 'w) loop_state" where
  "save_ckpt file w s = s\<lparr>files := (files s)\<lparr>ckpt_dir := (ckpt_dir (files s))(file \<mapsto> w)\<rparr>\<rparr>"

definition checkpoint_step ::
  "int \<Rightarrow> int \<Rightarrow> int \<Rightarrow> rat \<Rightarrow> 'w \<Rightarrow> ('m, 'w) loop_state \<Rightarrow> error + ('m, 'w) loop_state" where
  "checkpoint_step epochs save_every epoch vl w s =
     (if save_every = 0 then Inl ZeroDivisionError
      else
        (let s1 = (if epoch mod save_every = 0 \<or> epoch = epochs - 1
                   then save_ckpt (plan_name epoch vl) w s else s)
         in Inr (if vl < best_loss s1
                 then save_ckpt best_pt w (s1\<lparr>best_epoch := epoch, best_loss := vl\<rparr>)
                 else s1)))"

text \<open>
  One iteration of the loop (lines 71-154).  It returns the state it leaves behind and
  the exception, if one was raised.
\<close>

definition write_log :: "string \<Rightarrow> string \<Rightarrow> ('m, 'w) loop_state \<Rightarrow> ('m, 'w) loop_state" where
  "write_log file txt s = s\<lparr>files := (files s)\<lparr>logs_dir := append_file (logs_dir (files s)) file txt\<rparr>\<rparr>"

definition epoch_body ::
  "('m, 'x, 'l, 'p, 'w) env \<Rightarrow> ('p, 'l) metric list \<Rightarrow> bool \<Rightarrow> int \<Rightarrow>
   ('x, 'l) dataloader \<Rightarrow> ('x, 'l) dataloader \<Rightarrow> int \<Rightarrow> int \<Rightarrow> int \<Rightarrow>
   ('m, 'w) loop_state \<Rightarrow> ('m, 'w) loop_state \<times> error option" where
  "epoch_body E metrics one_hot nc train_dataloader valid_dataloader epochs save_every epoch s =
     (case epoch_averages E metrics one_hot nc train_dataloader valid_dataloader (model s) of
        (m1, Inl e) \<Rightarrow> (s\<lparr>model := m1\<rparr>, Some e)
      | (m1, Inr a) \<Rightarrow>
          (case checkpoint_step epochs save_every epoch (valid_loss a) (state_dict E m1)
                  (s\<lparr>model := m1\<rparr>) of
             Inl e \<Rightarrow> (s\<lparr>model := m1\<rparr>, Some e)
           | Inr s2 \<Rightarrow>
               (let s3 = write_log ''trainval.log''
                           (log_line E (map name metrics) epoch epochs a) s2
                in (s3\<lparr>model := scheduler_step E m1\<rparr>, None))))"

fun train_loop ::
  "('m, 'x, 'l, 'p, 'w) env \<Rightarrow> ('p, 'l) metric list \<Rightarrow> bool \<Rightarrow> int \<Rightarrow>
   ('x, 'l) dataloader \<Rightarrow> ('x, 'l) dataloader \<Rightarrow> int \<Rightarrow> int \<Rightarrow> int list \<Rightarrow>
   ('m, 'w) loop_state \<Rightarrow> ('m, 'w) loop_state \<times> error option" where
  "train_loop E metrics one_hot nc tdl vdl epochs save_every [] s = (s, None)"
| "train_loop E metrics one_hot nc tdl vdl epochs save_every (epoch # rest) s =
     (case epoch_body E metrics one_hot nc tdl vdl epochs save_every epoch s of
        (s', Some e) \<Rightarrow> (s', Some e)
      | (s', None) \<Rightarrow> train_loop E metrics one_hot nc tdl vdl epochs save_every rest s')"

text \<open>Line 155, after the loop: the best checkpoint gets its final name.\<close>

definition finish :: "('m, 'w) loop_state \<Rightarrow> ('m, 'w) loop_state \<times> error option" where
  "finish s =
     (case rename (ckpt_dir (files s)) best_pt (best_name (best_epoch s) (best_loss s)) of
        Inl e \<Rightarrow> (s, Some e)
      | Inr d \<Rightarrow> (s\<lparr>files := (files s)\<lparr>ckpt_dir := d\<rparr>\<rparr>, None))"

text \<open>
  Lines 56-64: the two run directories are allocated, the checkpoints' first.  A new
  directory is empty.
\<close>

definition alloc_ckpt :: "string \<Rightarrow> 'w fs \<Rightarrow> error + (string \<times> 'w fs)" where
  "alloc_ckpt checkpoints f =
     (case alloc_run_dir checkpoints (ckpt_parent f) of
        Inl e \<Rightarrow> Inl e
      | Inr (path, folder, listing) \<Rightarrow> Inr (path, f\<lparr>ckpt_parent := listing, ckpt_dir := Map.empty\<rparr>))"

definition alloc_logs :: "string \<Rightarrow> 'w fs \<Rightarrow> error + (string \<times> 'w fs)" where
  "alloc_logs logs f =
     (case alloc_run_dir logs (logs_parent f) of
        Inl e \<Rightarrow> Inl e
      | Inr (path, folder, listing) \<Rightarrow> Inr (path, f\<lparr>logs_parent := listing, logs_dir := Map.empty\<rparr>))"

text \<open>
  \<open>train\<close> (lines 8-155).  The arguments \<open>checkpoints\<close> and \<open>logs\<close> are the paths of the
  two parent directories, whose listings are in the file system \<open>f\<close>; \<open>device\<close> selects
  where tensors live and is left out.  The result is the state left behind and the
  exception, if one was raised.  When an allocation raises, the loop has not started:
  the state returned then only carries the model and the files as they are at that point.
\<close>

definition train ::
  "('m, 'x, 'l, 'p, 'w) env \<Rightarrow> ('x, 'l) dataloader \<Rightarrow> ('x, 'l) dataloader \<Rightarrow> 'm \<Rightarrow>
   ('p, 'l) metric list \<Rightarrow> int \<Rightarrow> string \<Rightarrow> string \<Rightarrow> int \<Rightarrow> bool \<Rightarrow> int \<Rightarrow> 'w fs \<Rightarrow>
   ('m, 'w) loop_state \<times> error option" where
  "train E train_dataloader valid_dataloader m metrics epochs checkpoints logs save_every one_hot nc f =
     (case alloc_ckpt checkpoints f of
        Inl e \<Rightarrow> (init_state m f, Some e)
      | Inr (checkpoints', f1) \<Rightarrow>
          (case alloc_logs logs f1 of
             Inl e \<Rightarrow> (init_state m f1, Some e)
           | Inr (logs', f2) \<Rightarrow>
               (case train_loop E metrics one_hot nc train_dataloader valid_dataloader
                       epochs save_every [0..epochs - 1] (init_state m f2) of
                  (s, Some e) \<Rightarrow> (s, Some e)
                | (s, None) \<Rightarrow> finish s)))"

section \<open>The evaluation loop\<close>

text \<open>
  \<open>test\<close> (lines 158-228) returns the path of its log directory.  The result here is the
  file system left behind and that path, or the exception.
\<close>

definition test ::
  "('m, 'x, 'l, 'p, 'w) env \<Rightarrow> ('x, 'l) dataloader \<Rightarrow> 'm \<Rightarrow> ('p, 'l) metric list \<Rightarrow>
   string \<Rightarrow> bool \<Rightarrow> int \<Rightarrow> 'w fs \<Rightarrow> 'w fs \<times> (error + string)" where
  "test E test_dataloader m metrics logs one_hot nc f =
     (case alloc_logs logs f of
        Inl e \<Rightarrow> (f, Inl e)
      | Inr (logs', f1) \<Rightarrow>
          (case eval_pass E metrics one_hot nc m test_dataloader (0, replicate (length metrics) 0) of
             (tsum, tmet) \<Rightarrow>
               if length test_dataloader = 0 then (f1, Inl ZeroDivisionError)
               else
                 (let test_mvct = map (\<lambda>v. v / of_nat (length test_dataloader)) tmet;
                      test_loss = tsum / of_nat (length test_dataloader);
                      txt = ''test loss: '' @ float_str E test_loss @ '' '' @
                            test_str E (zip (map name metrics) test_mvct)
                  in (f1\<lparr>logs_dir := append_file (logs_dir f1) ''test.log'' txt\<rparr>, Inr logs'))))"

text \<open>
  The number of positions at which two lists of elements agree: the number of
  elementwise-equal entries of two tensors of one shape.
\<close>

definition matches :: "rat list \<Rightarrow> rat list \<Rightarrow> nat" where
  "matches xs ys = length (filter (\<lambda>(x, y). x = y) (zip xs ys))"

section \<open>Quantities of a run, for the statements\<close>

text \<open>
  The statements about a whole run name the model at the start of each epoch, the
  validation loss of each epoch and the weights it would save.  They are read off the
  functions above: \<open>trained_model\<close> is the model that the passes of an epoch leave, and
  \<open>epoch_valid_loss\<close> is the epoch's averaged validation loss.
\<close>

definition trained_model ::
  "('m, 'x, 'l, 'p, 'w) env \<Rightarrow> ('p, 'l) metric list \<Rightarrow> bool \<Rightarrow> int \<Rightarrow>
   ('x, 'l) dataloader \<Rightarrow> ('x, 'l) dataloader \<Rightarrow> 'm \<Rightarrow> 'm" where
  "trained_model E metrics one_hot nc tdl vdl m = fst (epoch_averages E metrics one_hot nc tdl vdl m)"

definition epoch_valid_loss ::
  "('m, 'x, 'l, 'p, 'w) env \<Rightarrow> ('p, 'l) metric list \<Rightarrow> bool \<Rightarrow> int \<Rightarrow>
   ('x, 'l) dataloader \<Rightarrow> ('x, 'l) dataloader \<Rightarrow> 'm \<Rightarrow> rat" where
  "epoch_valid_loss E metrics one_hot nc tdl vdl m =
     (case snd (epoch_averages E metrics one_hot nc tdl vdl m) of Inl e \<Rightarrow> 0 | Inr a \<Rightarrow> valid_loss a)"

primrec model_at ::
  "('m, 'x, 'l, 'p, 'w) env \<Rightarrow> ('p, 'l) metric list \<Rightarrow> bool \<Rightarrow> int \<Rightarrow>
   ('x, 'l) dataloader \<Rightarrow> ('x, 'l) dataloader \<Rightarrow> 'm \<Rightarrow> nat \<Rightarrow> 'm" where
  "model_at E metrics one_hot nc tdl vdl m 0 = m"
| "model_at E metrics one_hot nc tdl vdl m (Suc n) =
     scheduler_step E (trained_model E metrics one_hot nc tdl vdl (model_at E metrics one_hot nc tdl vdl m n))"

definition vloss_at ::
  "('m, 'x, 'l, 'p, 'w) env \<Rightarrow> ('p, 'l) metric list \<Rightarrow> bool \<Rightarrow> int \<Rightarrow>
   ('x, 'l) dataloader \<Rightarrow> ('x, 'l) dataloader \<Rightarrow> 'm \<Rightarrow> nat \<Rightarrow> rat" where
  "vloss_at E metrics one_hot nc tdl vdl m n =
     epoch_valid_loss E metrics one_hot nc tdl vdl (model_at E metrics one_hot nc tdl vdl m n)"

definition weights_at ::
  "('m, 'x, 'l, 'p, 'w) env \<Rightarrow> ('p, 'l) metric list \<Rightarrow> bool \<Rightarrow> int \<Rightarrow>
   ('x, 'l) dataloader \<Rightarrow> ('x, 'l) dataloader \<Rightarrow> 'm \<Rightarrow> nat \<Rightarrow> 'w" where
  "weights_at E metrics one_hot nc tdl vdl m n =
     state_dict E (trained_model E metrics one_hot nc tdl vdl (model_at E metrics one_hot nc tdl vdl m n))"

text \<open>The condition of line 121 for a periodic checkpoint.\<close>

definition periodic :: "int \<Rightarrow> int \<Rightarrow> int \<Rightarrow> bool" where
  "periodic epochs save_every e = (e mod save_every = 0 \<or> e = epochs - 1)"

text \<open>
  The checkpoint directory, the best loss and the best epoch after \<open>n\<close> epochs, as a
  function of the epochs' validation losses \<open>vl\<close> and weights \<open>wt\<close>: the loop's
  bookkeeping without the model.  The loop is shown to compute it (\<open>train_loop_book\<close>).
\<close>

primrec book :: "(nat \<Rightarrow> rat) \<Rightarrow> (nat \<Rightarrow> 'w) \<Rightarrow> int \<Rightarrow> int \<Rightarrow> nat \<Rightarrow> (string \<rightharpoonup> 'w) \<times> rat \<times> int" where
  "book vl wt epochs k 0 = (Map.empty, 99999999, 0)"
| "book vl wt epochs k (Suc n) =
     (case book vl wt epochs k n of
        (d, bl, be) \<Rightarrow>
          (let d1 = (if periodic epochs k (int n) then d(plan_name (int n) (vl n) \<mapsto> wt n) else d)
           in if vl n < bl then (d1(best_pt \<mapsto> wt n), vl n, int n) else (d1, bl, be)))"

text \<open>What the best loss, the best epoch and the file \<open>best.pt\<close> are after \<open>n\<close> epochs.\<close>

definition best_inv :: "(nat \<Rightarrow> rat) \<Rightarrow> (nat \<Rightarrow> 'w) \<Rightarrow> nat \<Rightarrow> (string \<rightharpoonup> 'w) \<Rightarrow> rat \<Rightarrow> int \<Rightarrow> bool" where
  "best_inv vl wt n d bl be =
     (if \<exists>e<n. vl e < 99999999
      then \<exists>e<n. be = int e \<and> vl e = bl \<and> bl < 99999999 \<and> (\<forall>e'<e. bl < vl e') \<and>
                  (\<forall>e'<n. bl \<le> vl e') \<and> d best_pt = Some (wt e)
      else bl = 99999999 \<and> be = 0 \<and> d best_pt = None)"

text \<open>Every child of a parent directory has a name that \<open>int\<close> accepts.\<close>

definition all_numbered :: "string list \<Rightarrow> bool" where
  "all_numbered listing = list_all (\<lambda>s. py_int s \<noteq> None) listing"

section \<open>A scripted run, for the examples\<close>

text \<open>
  Collaborators whose validation losses are given in advance: the model's state counts
  the optimizer steps, the prediction is that count, and the loss of a prediction \<open>p\<close> is
  the \<open>p\<close>-th entry of the script.  With one training batch and one validation batch per
  epoch, the validation loss of epoch \<open>e\<close> is entry \<open>e\<close> of the script (counting from 0).
\<close>

definition scripted_env :: "rat list \<Rightarrow> (nat, unit, unit, nat, nat) env" where
  "scripted_env losses =
     \<lparr>forward = (\<lambda>mode m x. m),
      loss_fn = (\<lambda>p l. if 0 < p \<and> p \<le> length losses then losses ! (p - 1) else 0),
      optimize = (\<lambda>m x l. Suc m),
      scheduler_step = (\<lambda>m. m),
      state_dict = (\<lambda>m. m),
      one_hot_fn = (\<lambda>nc l. l),
      float_str = fmt2,
      metric_str = fmt2\<rparr>"

definition empty_fs :: "nat fs" where
  "empty_fs = \<lparr>ckpt_parent = [], logs_parent = [], ckpt_dir = Map.empty, logs_dir = Map.empty\<rparr>"

definition one_batch :: "(unit, unit) dataloader" where
  "one_batch = [((), ())]"

section \<open>The per-batch values of an epoch, for the statements\<close>

text \<open>
  The predictions and (encoded) labels of every batch of a pass, in order: in the
  training pass the model changes between the batches, in the validation pass it does
  not.  \<open>loss_sum\<close> and \<open>metric_sum\<close> add a loss or a metric up over such a list.
\<close>

fun train_outputs ::
  "('m, 'x, 'l, 'p, 'w) env \<Rightarrow> bool \<Rightarrow> int \<Rightarrow> ('x, 'l) dataloader \<Rightarrow> 'm \<Rightarrow> ('p \<times> 'l) list" where
  "train_outputs E one_hot nc [] m = []"
| "train_outputs E one_hot nc ((imgs, labels) # batches) m =
     (forward E Training m imgs, encode E one_hot nc labels) #
     train_outputs E one_hot nc batches (optimize E m imgs (encode E one_hot nc labels))"

definition eval_outputs ::
  "('m, 'x, 'l, 'p, 'w) env \<Rightarrow> bool \<Rightarrow> int \<Rightarrow> 'm \<Rightarrow> ('x, 'l) dataloader \<Rightarrow> ('p \<times> 'l) list" where
  "eval_outputs E one_hot nc m dl =
     map (\<lambda>(imgs, labels). (forward E Evaluating m imgs, encode E one_hot nc labels)) dl"

definition loss_sum :: "('m, 'x, 'l, 'p, 'w) env \<Rightarrow> ('p \<times> 'l) list \<Rightarrow> rat" where
  "loss_sum E outs = sum_list (map (\<lambda>(p, l). loss_fn E p l) outs)"

definition metric_sum :: "('p, 'l) metric \<Rightarrow> ('p \<times> 'l) list \<Rightarrow> rat" where
  "metric_sum metric outs = sum_list (map (\<lambda>(p, l). calc metric p l) outs)"

text \<open>A metric and a data loader of two batches, for the example of the averages.\<close>

definition count_metric :: "(nat, unit) metric" where
  "count_metric = \<lparr>name = ''count'', calc = (\<lambda>p l. of_nat p)\<rparr>"

definition two_batches :: "(unit, unit) dataloader" where
  "two_batches = [((), ()), ((), ())]"

section \<open>Properties of the decimal text of integers\<close>

lemma digit_cases: "d < 10 \<Longrightarrow> d = 0 \<or> d = 1 \<or> d = 2 \<or> d = 3 \<or> d = 4 \<or> d = 5 \<or> d = 6 \<or> d = 7 \<or> d = 8 \<or> d = (9::nat)"
  by arith

lemma digit_char_props:
  assumes "d < 10"
  shows "is_digit (digit_char d)" and "digit_val (digit_char d) = d"
    and "\<not> is_space (digit_char d)" and "digit_char d \<noteq> CHR ''-''" and "digit_char d \<noteq> CHR ''+''"
    and "digit_char d \<noteq> CHR ''_''"
  using digit_cases [OF assms]
  by (auto simp: digit_char_def is_digit_def digit_val_def is_space_def)

lemma str_pos_digits: "c \<in> set (str_pos n) \<Longrightarrow> is_digit c"
proof (induction n arbitrary: c rule: str_pos.induct)
  case (1 n)
  show ?case
  proof (cases "n < 10")
    case True
    with "1.prems" show ?thesis
      by (simp add: str_pos.simps [of n] digit_char_props)
  next
    case False
    with "1.prems" "1.IH" show ?thesis
      by (auto simp: str_pos.simps [of n] digit_char_props)
  qed
qed

lemma str_pos_nonempty: "str_pos n \<noteq> []"
  by (subst str_pos.simps) simp

lemma digits_val_all_digits:
  "(\<And>c. c \<in> set ds \<Longrightarrow> is_digit c) \<Longrightarrow> digits_val (ds @ cs) acc = digits_val cs (foldl dec_step acc ds)"
  by (induction ds arbitrary: acc) (simp_all add: dec_step_def)

lemma foldl_str_pos: "0 \<le> n \<Longrightarrow> int (foldl dec_step 0 (str_pos n)) = n"
proof (induction n rule: str_pos.induct)
  case (1 n)
  show ?case
  proof (cases "n < 10")
    case True
    have "foldl dec_step 0 (str_pos n) = dec_step 0 (digit_char (nat n))"
      using True by (simp add: str_pos.simps [of n])
    also have "\<dots> = nat n"
      using True by (simp add: dec_step_def digit_char_props)
    finally show ?thesis
      using "1.prems" by simp
  next
    case False
    let ?a = "foldl dec_step 0 (str_pos (n div 10))"
    from False "1.IH" "1.prems" have ih: "int ?a = n div 10"
      by simp
    have "foldl dec_step 0 (str_pos n) = dec_step ?a (digit_char (nat (n mod 10)))"
      using False by (simp add: str_pos.simps [of n])
    also have "\<dots> = 10 * ?a + nat (n mod 10)"
      by (simp add: dec_step_def digit_char_props)
    finally have "int (foldl dec_step 0 (str_pos n)) = 10 * int ?a + n mod 10"
      by simp
    with ih show ?thesis
      by simp
  qed
qed

lemma parse_nat_str_pos: "0 \<le> n \<Longrightarrow> parse_nat (str_pos n) = Some (nat n)"
proof -
  assume n: "0 \<le> n"
  obtain c cs where eq: "str_pos n = c # cs"
    using str_pos_nonempty [of n] by (cases "str_pos n") auto
  have "is_digit c"
    using str_pos_digits [of c n] eq by simp
  moreover have "digits_val (str_pos n) 0 = Some (foldl dec_step 0 (str_pos n))"
    using digits_val_all_digits [of "str_pos n" "[]" 0] str_pos_digits [of _ n]
    by simp
  moreover have "foldl dec_step 0 (str_pos n) = nat n"
    using foldl_str_pos [OF n] by simp
  ultimately show ?thesis
    by (simp add: parse_nat_def eq)
qed

lemma strip_id:
  assumes "s \<noteq> []" "\<not> is_space (hd s)" "\<not> is_space (last s)"
  shows "strip s = s"
proof -
  have a: "dropWhile is_space s = s"
    using assms(1,2) by (cases s) auto
  have "rev s \<noteq> []" "\<not> is_space (hd (rev s))"
    using assms(1,3) by (simp_all add: hd_rev)
  then have "dropWhile is_space (rev s) = rev s"
    by (cases "rev s") auto
  with a show ?thesis
    by (simp add: strip_def)
qed

lemma str_pos_not_space: "c \<in> set (str_pos n) \<Longrightarrow> \<not> is_space c"
  using str_pos_digits [of c n] by (auto simp: is_digit_def is_space_def)

lemma strip_str_int: "strip (str_int i) = str_int i"
proof (rule strip_id)
  show "str_int i \<noteq> []"
    by (simp add: str_int_def str_pos_nonempty)
  show "\<not> is_space (hd (str_int i))"
    using str_pos_not_space [of "hd (str_pos i)" i] str_pos_nonempty [of i]
    by (auto simp: str_int_def is_space_def)
  show "\<not> is_space (last (str_int i))"
    using str_pos_not_space [of "last (str_pos i)" i] str_pos_nonempty [of i]
      str_pos_not_space [of "last (str_pos (- i))" "- i"] str_pos_nonempty [of "- i"]
    by (auto simp: str_int_def)
qed

lemma str_pos_hd: "str_pos n = c # cs \<Longrightarrow> c \<noteq> CHR ''-'' \<and> c \<noteq> CHR ''+''"
  using str_pos_digits [of c n] by (auto simp: is_digit_def)

lemma py_int_str_int: "py_int (str_int i) = Some i"
proof (cases "i < 0")
  case True
  then show ?thesis
    by (simp add: py_int_def strip_str_int) (simp add: str_int_def parse_nat_str_pos)
next
  case False
  obtain c cs where eq: "str_pos i = c # cs"
    using str_pos_nonempty [of i] by (cases "str_pos i") auto
  from False have s: "str_int i = c # cs"
    by (simp add: str_int_def eq)
  have "parse_nat (c # cs) = Some (nat i)"
    using parse_nat_str_pos [of i] eq False by simp
  moreover have "strip (c # cs) = c # cs"
    using strip_str_int [of i] s by simp
  ultimately show ?thesis
    using False str_pos_hd [OF eq] by (simp add: py_int_def s)
qed

lemma fold_max_Max: "fold max xs (x::int) = Max (set (x # xs))"
  using Max.set_eq_fold [of x xs] by simp

lemma fold_max_ge: "y \<in> set (x # xs) \<Longrightarrow> y \<le> fold max xs (x::int)"
  unfolding fold_max_Max by (rule Max_ge) auto

lemma map_int_Inr:
  "map_int ss = Inr js \<Longrightarrow> js = map (\<lambda>s. the (py_int s)) ss \<and> (\<forall>s \<in> set ss. py_int s \<noteq> None)"
  by (induction ss arbitrary: js) (auto split: option.splits sum.splits)

lemma map_int_all:
  "(\<And>s. s \<in> set ss \<Longrightarrow> py_int s \<noteq> None) \<Longrightarrow> map_int ss = Inr (map (\<lambda>s. the (py_int s)) ss)"
  by (induction ss) (auto split: option.splits sum.splits)

lemma map_int_Inl:
  "s \<in> set ss \<Longrightarrow> py_int s = None \<Longrightarrow> map_int ss = Inl ValueError"
  by (induction ss) (auto split: option.splits sum.splits)

lemma map_int_error: "map_int ss = Inl e \<Longrightarrow> e = ValueError"
  by (induction ss) (auto split: option.splits sum.splits)


lemma next_id_fresh:
  assumes "map_int listing = Inr ids" "next_id ids = Inr n"
  shows "str_int n \<notin> set listing"
proof
  assume mem: "str_int n \<in> set listing"
  from map_int_Inr [OF assms(1)] have ids: "ids = map (\<lambda>s. the (py_int s)) listing"
    by simp
  from mem have "the (py_int (str_int n)) \<in> set ids"
    unfolding ids by (simp only: set_map) (rule imageI)
  then have nin: "n \<in> set ids"
    by (simp add: py_int_str_int)
  then obtain x xs where c: "ids = x # xs"
    by (cases ids) auto
  with assms(2) have "n = fold max xs x + 1"
    by (simp add: next_id_def)
  moreover have "n \<le> fold max xs x"
    using fold_max_ge [of n x xs] nin c by simp
  ultimately show False
    by simp
qed

lemma next_id_total: "\<exists>n. next_id ids = Inr n"
  by (cases ids) (simp_all add: next_id_def)

lemma alloc_run_dir_ok:
  assumes "\<And>s. s \<in> set listing \<Longrightarrow> py_int s \<noteq> None"
  shows "\<exists>n. next_id (map (\<lambda>s. the (py_int s)) listing) = Inr n \<and>
           alloc_run_dir parent listing =
             Inr (parent @ ''/'' @ str_int n, str_int n, listing @ [str_int n])"
proof -
  have m: "map_int listing = Inr (map (\<lambda>s. the (py_int s)) listing)"
    using assms by (rule map_int_all)
  obtain n where n: "next_id (map (\<lambda>s. the (py_int s)) listing) = Inr n"
    using next_id_total by blast
  have "str_int n \<notin> set listing"
    using m n by (rule next_id_fresh)
  then show ?thesis
    using m n by (simp add: alloc_run_dir_def mkdir_def)
qed

lemma next_id_upto:
  assumes "set ids = {0..k}" "0 \<le> k"
  shows "next_id ids = Inr (k + 1)"
proof -
  from assms obtain x xs where c: "ids = x # xs"
    by (cases ids) auto
  have "fold max xs x = Max {0..k}"
    using assms(1) c by (simp add: fold_max_Max)
  also have "\<dots> = k"
    using assms(2) by (intro Max_eqI) auto
  finally show ?thesis
    by (simp add: next_id_def c)
qed

lemma alloc_empty: "alloc_run_dir parent [] = Inr (parent @ ''/0'', ''0'', [''0''])"
  by (simp add: alloc_run_dir_def next_id_def mkdir_def str_int_def str_pos.simps digit_char_def)

lemma alloc_upto:
  assumes "set listing = str_int ` {0..k}" and "0 \<le> k"
  shows "alloc_run_dir parent listing =
           Inr (parent @ ''/'' @ str_int (k + 1), str_int (k + 1), listing @ [str_int (k + 1)])"
proof -
  have p: "\<And>s. s \<in> set listing \<Longrightarrow> py_int s \<noteq> None"
    using assms(1) by (auto simp: py_int_str_int)
  have "set (map (\<lambda>s. the (py_int s)) listing) = (\<lambda>s. the (py_int s)) ` str_int ` {0..k}"
    using assms(1) by simp
  also have "\<dots> = {0..k}"
    by (simp add: image_image py_int_str_int)
  finally have "next_id (map (\<lambda>s. the (py_int s)) listing) = Inr (k + 1)"
    using assms(2) by (rule next_id_upto)
  with alloc_run_dir_ok [of listing parent, OF p] show ?thesis
    by auto
qed

lemma alloc_bad:
  assumes "s \<in> set listing" "py_int s = None"
  shows "alloc_run_dir parent listing = Inl ValueError"
  using map_int_Inl [OF assms] by (simp add: alloc_run_dir_def)

lemma alloc_error:
  assumes "alloc_run_dir parent listing = Inl e"
  shows "e = ValueError"
proof (cases "\<forall>s \<in> set listing. py_int s \<noteq> None")
  case True
  then have "\<And>s. s \<in> set listing \<Longrightarrow> py_int s \<noteq> None"
    by blast
  from alloc_run_dir_ok [of listing parent, OF this] assms show ?thesis
    by auto
next
  case False
  then obtain s where "s \<in> set listing" "py_int s = None"
    by blast
  from alloc_bad [OF this, of parent] assms show ?thesis
    by simp
qed

section \<open>The claim about a name that is not a number\<close>

text \<open>
  C8.  When some child of the parent directory has a name that \<open>int\<close> rejects, the block
  raises (Python's \<open>ValueError\<close>, which the specification files under its
  \<open>InvalidStateError\<close>), nothing catches it in \<open>train\<close> or in \<open>test\<close>, and the listing of
  that parent is left as it was.
\<close>

theorem run_dir_non_integer:
  assumes "s \<in> set listing" and "py_int s = None"
  shows "alloc_run_dir parent listing = Inl ValueError
       \<and> (ckpt_parent f = listing \<longrightarrow>
            train E tdl vdl m metrics epochs parent logs save_every one_hot nc f =
              (init_state m f, Some ValueError))
       \<and> (logs_parent f = listing \<longrightarrow>
            snd (train E tdl vdl m metrics epochs checkpoints parent save_every one_hot nc f) =
              Some ValueError \<and>
            logs_parent (files (fst (train E tdl vdl m metrics epochs checkpoints parent save_every one_hot nc f))) =
              listing)
       \<and> (logs_parent f = listing \<longrightarrow>
            test E dl m metrics parent one_hot nc f = (f, Inl ValueError))"
proof -
  have a: "alloc_run_dir parent listing = Inl ValueError"
    using assms by (rule alloc_bad)
  have b: "train E tdl vdl m metrics epochs parent logs save_every one_hot nc f =
             (init_state m f, Some ValueError)" if "ckpt_parent f = listing"
    using a that by (simp add: train_def alloc_ckpt_def)
  have c: "snd (train E tdl vdl m metrics epochs checkpoints parent save_every one_hot nc f) =
             Some ValueError \<and>
           logs_parent (files (fst (train E tdl vdl m metrics epochs checkpoints parent save_every one_hot nc f))) =
             listing" if l: "logs_parent f = listing"
  proof (cases "alloc_run_dir checkpoints (ckpt_parent f)")
    case (Inl e)
    then have "e = ValueError"
      by (rule alloc_error)
    with Inl l show ?thesis
      by (simp add: train_def alloc_ckpt_def init_state_def)
  next
    case (Inr r)
    with a l show ?thesis
      by (simp add: train_def alloc_ckpt_def alloc_logs_def init_state_def split: prod.splits)
  qed
  have d: "test E dl m metrics parent one_hot nc f = (f, Inl ValueError)" if "logs_parent f = listing"
    using a that by (simp add: test_def alloc_logs_def)
  from a b c d show ?thesis
    by blast
qed

theorem run_dir_non_integer_witness:
  "alloc_run_dir ''logs'' [''0'', ''.DS_Store''] = Inl ValueError"
proof -
  have "py_int ''.DS_Store'' = None"
    by code_simp
  then show ?thesis
    by (intro run_dir_non_integer [THEN conjunct1, of "''.DS_Store''"]) simp_all
qed

section \<open>Properties of the tensor operations\<close>

lemma indices_length: "idx \<in> set (indices s) \<Longrightarrow> length idx = length s"
  by (induction s arbitrary: idx) auto

lemma concat_blocks:
  "concat (map (\<lambda>i. map (\<lambda>j. (a + i) * P + j) [0..<P]) [0..<d]) = map (\<lambda>j. a * P + j) [0..<d * P]"
proof (induction d)
  case 0
  show ?case by simp
next
  case (Suc d)
  have "[0..<Suc d * P] = [0..<d * P] @ [d * P..<d * P + P]"
    using upt_add_eq_append [of 0 "d * P" P] by (simp add: add.commute)
  moreover have "[d * P..<d * P + P] = map (\<lambda>j. j + d * P) [0..<P]"
    using map_add_upt [of "d * P" P] by (simp add: add.commute)
  ultimately have "map (\<lambda>j. a * P + j) [0..<Suc d * P] =
      map (\<lambda>j. a * P + j) [0..<d * P] @ map (\<lambda>j. a * P + (j + d * P)) [0..<P]"
    by (simp only: map_append map_map comp_def)
  also have "map (\<lambda>j. a * P + (j + d * P)) [0..<P] = map (\<lambda>j. (a + d) * P + j) [0..<P]"
    by (intro map_cong refl) (simp add: algebra_simps)
  finally show ?case
    using Suc by simp
qed

lemma flat_enumerate:
  "map (\<lambda>idx. foldl flat_step acc (zip s idx)) (indices s) =
   map (\<lambda>j. acc * prod_list s + j) [0..<prod_list s]"
proof (induction s arbitrary: acc)
  case Nil
  show ?case by simp
next
  case (Cons d ds)
  let ?P = "prod_list ds"
  have "map (\<lambda>idx. foldl flat_step acc (zip (d # ds) idx)) (indices (d # ds)) =
        concat (map (\<lambda>i. map (\<lambda>r. foldl flat_step (flat_step acc (d, i)) (zip ds r)) (indices ds)) [0..<d])"
    by (simp add: map_concat comp_def)
  also have "\<dots> = concat (map (\<lambda>i. map (\<lambda>j. flat_step acc (d, i) * ?P + j) [0..<?P]) [0..<d])"
    by (simp add: Cons.IH)
  also have "\<dots> = concat (map (\<lambda>i. map (\<lambda>j. (acc * d + i) * ?P + j) [0..<?P]) [0..<d])"
    by (intro arg_cong [where f = concat] map_cong refl) (auto simp: flat_step_def)
  also have "\<dots> = map (\<lambda>j. (acc * d) * ?P + j) [0..<d * ?P]"
    by (rule concat_blocks)
  finally show ?case
    by (simp add: mult.assoc)
qed

lemma flat_index_indices: "map (flat_index s) (indices s) = [0..<prod_list s]"
proof -
  have "map (flat_index s) (indices s) = map (\<lambda>idx. foldl flat_step 0 (zip s idx)) (indices s)"
    by (intro map_cong refl) (simp add: flat_index_def indices_length)
  also have "\<dots> = map (\<lambda>j. 0 * prod_list s + j) [0..<prod_list s]"
    by (rule flat_enumerate)
  finally show ?thesis
    by simp
qed

lemma bc_rev_same: "bc_rev s s = Some s"
  by (induction s) auto

lemma broadcast_same: "broadcast_shapes s s = Some s"
  by (simp add: broadcast_shapes_def bc_rev_same)

lemma tensor_eq_same_shape:
  assumes "shape a = shape b"
  shows "tensor_eq a b = Inr (map (\<lambda>i. data a ! i = data b ! i) [0..<prod_list (shape b)])"
proof -
  have "map (\<lambda>idx. data a ! flat_index (shape b) idx = data b ! flat_index (shape b) idx) (indices (shape b)) =
        map (\<lambda>i. data a ! i = data b ! i) (map (flat_index (shape b)) (indices (shape b)))"
    by (simp add: comp_def)
  then show ?thesis
    using assms by (simp add: tensor_eq_def broadcast_same flat_index_indices)
qed

lemma count_matches:
  assumes "length xs = n" "length ys = n"
  shows "length (filter id (map (\<lambda>i. xs ! i = ys ! i) [0..<n])) = matches xs ys"
proof -
  have z: "zip xs ys = map (\<lambda>i. (xs ! i, ys ! i)) [0..<n]"
    using assms by (intro nth_equalityI) auto
  have "length (filter id (map (\<lambda>i. xs ! i = ys ! i) [0..<n])) =
        length (filter (\<lambda>i. xs ! i = ys ! i) [0..<n])"
    by (simp add: filter_map comp_def)
  also have "\<dots> = length (filter (\<lambda>(x, y). x = y) (map (\<lambda>i. (xs ! i, ys ! i)) [0..<n]))"
    by (simp add: filter_map comp_def)
  finally show ?thesis
    by (simp add: matches_def z)
qed

lemma fold_np: "fold (\<lambda>shape np. np * shape) s (n::nat) = n * prod_list s"
  by (induction s arbitrary: n) (simp_all add: mult.assoc)

lemma length_concat_const:
  "length (concat (map (\<lambda>i. map (f i) [0..<k]) [0..<b])) = b * k"
  by (induction b) simp_all

lemma equal_fraction_same_shape:
  assumes "shape p = shape l" "length (data p) = prod_list (shape l)" "wf_tensor l"
  shows "equal_fraction p l = Inr (true_div (matches (data p) (data l)) (prod_list (shape l)))"
  using assms count_matches [of "data p" "prod_list (shape l)" "data l"]
  by (simp add: equal_fraction_def tensor_eq_same_shape fold_np wf_tensor_def)

lemma argmax_dim1_ok:
  assumes "shape t = b # c # rest" "0 < c"
  shows "\<exists>p. argmax_dim1 t = Inr p \<and> shape p = b # rest \<and> length (data p) = prod_list (b # rest)"
  using assms by (simp add: argmax_dim1_def Let_def length_concat_const)


section \<open>The claim about the accuracy metric\<close>

text \<open>
  C5, as the code has it.  When the predictions have one more axis than the labels (a
  non-empty class axis at position 1) and the labels do not have exactly two axes,
  \<open>accuracy.calc\<close> reduces the predictions by arg-max along axis 1 and returns the number
  of entries equal to the labels' divided by the product of all the labels' sizes.  When
  the labels have two axes and the predictions have the labels' shape (one-hot labels),
  both are reduced by arg-max along axis 1 and the divisor is the size of axis 0.  For
  the predictions \<open>[[0.1, 0.9], [0.8, 0.2]]\<close> and the labels \<open>[1, 0]\<close> the result is 1.
\<close>

theorem accuracy_fraction:
  "(shape preds = b # c # rest \<and> shape labels = b # rest \<and> 0 < c \<and> length rest \<noteq> 1 \<and>
      wf_tensor preds \<and> wf_tensor labels \<longrightarrow>
      (\<exists>p. argmax_dim1 preds = Inr p \<and>
           accuracy_calc preds labels =
             Inr (true_div (matches (data p) (data labels)) (prod_list (shape labels)))))
   \<and> (shape preds = [b, c] \<and> shape labels = [b, c] \<and> 0 < c \<and> wf_tensor preds \<and> wf_tensor labels \<longrightarrow>
      (\<exists>p l. argmax_dim1 preds = Inr p \<and> argmax_dim1 labels = Inr l \<and>
           accuracy_calc preds labels = Inr (true_div (matches (data p) (data l)) b)))
   \<and> accuracy_calc \<lparr>shape = [2, 2], data = [1 / 10, 9 / 10, 8 / 10, 2 / 10]\<rparr>
                    \<lparr>shape = [2], data = [1, 0]\<rparr> = Inr (Score 1)"
proof (intro conjI impI)
  assume h: "shape preds = b # c # rest \<and> shape labels = b # rest \<and> 0 < c \<and> length rest \<noteq> 1 \<and>
      wf_tensor preds \<and> wf_tensor labels"
  then obtain p where p: "argmax_dim1 preds = Inr p" "shape p = b # rest"
      "length (data p) = prod_list (b # rest)"
    using argmax_dim1_ok [of preds b c rest] by blast
  have r1: "reduce_preds preds labels = Inr p"
    using h p by (simp add: reduce_preds_def)
  have r2: "reduce_two_axes p labels = Inr (p, labels)"
    using h by (simp add: reduce_two_axes_def)
  have "equal_fraction p labels =
          Inr (true_div (matches (data p) (data labels)) (prod_list (shape labels)))"
    using h p by (intro equal_fraction_same_shape) simp_all
  with r1 r2 p show "\<exists>p. argmax_dim1 preds = Inr p \<and>
           accuracy_calc preds labels =
             Inr (true_div (matches (data p) (data labels)) (prod_list (shape labels)))"
    by (simp add: accuracy_calc_def)
next
  assume h: "shape preds = [b, c] \<and> shape labels = [b, c] \<and> 0 < c \<and> wf_tensor preds \<and> wf_tensor labels"
  obtain p where p: "argmax_dim1 preds = Inr p" "shape p = [b]" "length (data p) = prod_list [b]"
    using argmax_dim1_ok [of preds b c "[]"] h by blast
  obtain l where l: "argmax_dim1 labels = Inr l" "shape l = [b]" "length (data l) = prod_list [b]"
    using argmax_dim1_ok [of labels b c "[]"] h by blast
  have r1: "reduce_preds preds labels = Inr preds"
    using h by (simp add: reduce_preds_def shape_at_def)
  have r2: "reduce_two_axes preds labels = Inr (p, l)"
    using h p l by (simp add: reduce_two_axes_def)
  have "equal_fraction p l = Inr (true_div (matches (data p) (data l)) (prod_list (shape l)))"
    using p l by (intro equal_fraction_same_shape) (simp_all add: wf_tensor_def)
  with r1 r2 p l show "\<exists>p l. argmax_dim1 preds = Inr p \<and> argmax_dim1 labels = Inr l \<and>
           accuracy_calc preds labels = Inr (true_div (matches (data p) (data l)) b)"
    by (simp add: accuracy_calc_def)
next
  show "accuracy_calc \<lparr>shape = [2, 2], data = [1 / 10, 9 / 10, 8 / 10, 2 / 10]\<rparr>
                    \<lparr>shape = [2], data = [1, 0]\<rparr> = Inr (Score 1)"
    by code_simp
qed

theorem accuracy_fraction_witness:
  "(\<exists>p. argmax_dim1 \<lparr>shape = [2, 2], data = [1 / 10, 9 / 10, 8 / 10, 2 / 10]\<rparr> = Inr p \<and>
        accuracy_calc \<lparr>shape = [2, 2], data = [1 / 10, 9 / 10, 8 / 10, 2 / 10]\<rparr>
                      \<lparr>shape = [2], data = [1, 0]\<rparr> =
          Inr (true_div (matches (data p) [1, 0]) 2))
   \<and> (\<exists>p l. argmax_dim1 \<lparr>shape = [2, 2], data = [1 / 10, 9 / 10, 8 / 10, 2 / 10]\<rparr> = Inr p \<and>
        argmax_dim1 \<lparr>shape = [2, 2], data = [0, 1, 1, 0]\<rparr> = Inr l \<and>
        accuracy_calc \<lparr>shape = [2, 2], data = [1 / 10, 9 / 10, 8 / 10, 2 / 10]\<rparr>
                      \<lparr>shape = [2, 2], data = [0, 1, 1, 0]\<rparr> =
          Inr (true_div (matches (data p) (data l)) 2))"
proof
  show "\<exists>p. argmax_dim1 \<lparr>shape = [2, 2], data = [1 / 10, 9 / 10, 8 / 10, 2 / 10]\<rparr> = Inr p \<and>
        accuracy_calc \<lparr>shape = [2, 2], data = [1 / 10, 9 / 10, 8 / 10, 2 / 10]\<rparr>
                      \<lparr>shape = [2], data = [1, 0]\<rparr> =
          Inr (true_div (matches (data p) [1, 0]) 2)"
    using accuracy_fraction [THEN conjunct1,
        of "\<lparr>shape = [2, 2], data = [1 / 10, 9 / 10, 8 / 10, 2 / 10]\<rparr>" 2 2 "[]"
           "\<lparr>shape = [2], data = [1, 0]\<rparr>"]
    by (simp add: wf_tensor_def)
  show "\<exists>p l. argmax_dim1 \<lparr>shape = [2, 2], data = [1 / 10, 9 / 10, 8 / 10, 2 / 10]\<rparr> = Inr p \<and>
        argmax_dim1 \<lparr>shape = [2, 2], data = [0, 1, 1, 0]\<rparr> = Inr l \<and>
        accuracy_calc \<lparr>shape = [2, 2], data = [1 / 10, 9 / 10, 8 / 10, 2 / 10]\<rparr>
                      \<lparr>shape = [2, 2], data = [0, 1, 1, 0]\<rparr> =
          Inr (true_div (matches (data p) (data l)) 2)"
    using accuracy_fraction [THEN conjunct2, THEN conjunct1,
        of "\<lparr>shape = [2, 2], data = [1 / 10, 9 / 10, 8 / 10, 2 / 10]\<rparr>" 2 2
           "\<lparr>shape = [2, 2], data = [0, 1, 1, 0]\<rparr>"]
    by (simp add: wf_tensor_def)
qed


text \<open>
  C5 as stated fails when the labels have two axes: for predictions of shape
  \<open>(1, 2, 2)\<close> whose arg-max along axis 1 is \<open>[[0, 1]]\<close> and labels \<open>[[0, 0]]\<close>, one of the
  two label entries agrees, so the stated fraction is 1/2; line 10 reduces both tensors
  once more and the result is 0.
\<close>

theorem accuracy_two_axes_counterexample:
  "argmax_dim1 \<lparr>shape = [1, 2, 2], data = [1, 0, 0, 1]\<rparr> = Inr \<lparr>shape = [1, 2], data = [0, 1]\<rparr>
   \<and> true_div (matches [0, 1] [0, 0]) (prod_list [1, 2]) = Score (1 / 2)
   \<and> accuracy_calc \<lparr>shape = [1, 2, 2], data = [1, 0, 0, 1]\<rparr> \<lparr>shape = [1, 2], data = [0, 0]\<rparr>
        = Inr (Score 0)
   \<and> accuracy_calc \<lparr>shape = [1, 2, 2], data = [1, 0, 0, 1]\<rparr> \<lparr>shape = [1, 2], data = [0, 0]\<rparr>
        \<noteq> Inr (true_div (matches [0, 1] [0, 0]) (prod_list [1, 2]))"
  by code_simp

section \<open>Properties of the training loop\<close>

lemma epoch_averages_ok:
  assumes "tdl \<noteq> []" "vdl \<noteq> []"
  shows "\<exists>a. epoch_averages E metrics one_hot nc tdl vdl m =
           (trained_model E metrics one_hot nc tdl vdl m, Inr a) \<and>
           valid_loss a = epoch_valid_loss E metrics one_hot nc tdl vdl m"
  using assms
  by (simp add: trained_model_def epoch_valid_loss_def)
     (simp add: epoch_averages_def split: prod.splits)

lemma epoch_averages_empty:
  assumes "tdl = [] \<or> vdl = []"
  shows "snd (epoch_averages E metrics one_hot nc tdl vdl m) = Inl ZeroDivisionError"
  using assms by (auto simp: epoch_averages_def split: prod.splits)

lemma train_loop_snoc:
  "train_loop E metrics one_hot nc tdl vdl epochs k (es @ [e]) s =
     (case train_loop E metrics one_hot nc tdl vdl epochs k es s of
        (s', Some x) \<Rightarrow> (s', Some x)
      | (s', None) \<Rightarrow> epoch_body E metrics one_hot nc tdl vdl epochs k e s')"
  by (induction es arbitrary: s) (auto split: prod.splits option.splits)

lemma str_int_no_underscore: "CHR ''_'' \<notin> set (str_int i)"
  using str_pos_digits [of "CHR ''_''"] by (auto simp: str_int_def is_digit_def)

lemma str_int_inj: "str_int a = str_int b \<Longrightarrow> a = b"
  by (metis option.inject py_int_str_int)

lemma split_at_first:
  assumes "xs @ c # r = ys @ c # r'" "c \<notin> set xs" "c \<notin> set ys"
  shows "xs = ys"
proof -
  have t: "takeWhile (\<lambda>x. x \<noteq> c) (zs @ c # q) = zs" if "c \<notin> set zs" for zs q
    using that by (induction zs) auto
  have "takeWhile (\<lambda>x. x \<noteq> c) (xs @ c # r) = takeWhile (\<lambda>x. x \<noteq> c) (ys @ c # r')"
    using assms(1) by simp
  with t [OF assms(2)] t [OF assms(3)] show ?thesis
    by simp
qed

lemma plan_name_inj: "plan_name e l = plan_name e' l' \<Longrightarrow> e = e'"
proof -
  assume "plan_name e l = plan_name e' l'"
  then have "str_int e @ CHR ''_'' # (fmt2 l @ ''.pt'') = str_int e' @ CHR ''_'' # (fmt2 l' @ ''.pt'')"
    by (simp add: plan_name_def)
  then have "str_int e = str_int e'"
    by (rule split_at_first) (rule str_int_no_underscore)+
  then show ?thesis
    by (rule str_int_inj)
qed

lemma best_name_inj: "best_name e l = best_name e' l' \<Longrightarrow> e = e'"
proof -
  assume "best_name e l = best_name e' l'"
  then have "str_int e @ CHR ''_'' # (fmt2 l @ ''.pt'') = str_int e' @ CHR ''_'' # (fmt2 l' @ ''.pt'')"
    by (simp add: best_name_def)
  then have "str_int e = str_int e'"
    by (rule split_at_first) (rule str_int_no_underscore)+
  then show ?thesis
    by (rule str_int_inj)
qed

lemma names_distinct [simp]:
  "plan_name e l \<noteq> best_pt" "best_pt \<noteq> plan_name e l"
  "best_name e l \<noteq> best_pt" "best_pt \<noteq> best_name e l"
  "plan_name e l \<noteq> best_name e' l'" "best_name e' l' \<noteq> plan_name e l"
  by (simp_all add: plan_name_def best_pt_def best_name_def)

lemma best_prefix [simp]:
  "prefix ''best'' best_pt" "prefix ''best'' (best_name e l)" "\<not> prefix ''best'' (plan_name e l)"
  by (simp_all add: plan_name_def best_pt_def best_name_def)

lemma best_inv_0: "best_inv vl wt 0 Map.empty 99999999 0"
  by (simp add: best_inv_def)

lemma best_inv_keep:
  assumes "best_inv vl wt n d bl be" "\<not> vl n < bl" "d' best_pt = d best_pt"
  shows "best_inv vl wt (Suc n) d' bl be"
proof (cases "\<exists>e<n. vl e < 99999999")
  case True
  with assms(1) obtain e where e: "e < n" "be = int e" "vl e = bl" "bl < 99999999"
      "\<forall>e'<e. bl < vl e'" "\<forall>e'<n. bl \<le> vl e'" "d best_pt = Some (wt e)"
    unfolding best_inv_def by auto
  have ex: "\<exists>e<Suc n. vl e < 99999999"
    using True less_Suc_eq by blast
  have all: "\<forall>e'<Suc n. bl \<le> vl e'"
    using e(6) assms(2) by (auto simp: less_Suc_eq)
  have "e < Suc n"
    using e(1) by simp
  with e all assms(3) have "\<exists>e<Suc n. be = int e \<and> vl e = bl \<and> bl < 99999999 \<and> (\<forall>e'<e. bl < vl e') \<and>
                  (\<forall>e'<Suc n. bl \<le> vl e') \<and> d' best_pt = Some (wt e)"
    by metis
  with ex show ?thesis
    unfolding best_inv_def by simp
next
  case False
  with assms(1) have b: "bl = 99999999" "be = 0" "d best_pt = None"
    unfolding best_inv_def by auto
  from False assms(2) b(1) have "\<not> (\<exists>e<Suc n. vl e < 99999999)"
    by (auto simp: less_Suc_eq)
  with b assms(3) show ?thesis
    unfolding best_inv_def by simp
qed

lemma best_inv_improve:
  assumes "best_inv vl wt n d bl be" "vl n < bl" "d' best_pt = Some (wt n)"
  shows "best_inv vl wt (Suc n) d' (vl n) (int n)"
proof -
  have bound: "bl \<le> 99999999 \<and> (\<forall>e'<n. bl \<le> vl e')"
  proof (cases "\<exists>e<n. vl e < 99999999")
    case True
    with assms(1) show ?thesis
      unfolding best_inv_def by auto
  next
    case False
    with assms(1) have "bl = 99999999"
      unfolding best_inv_def by auto
    moreover from False have "\<forall>e'<n. 99999999 \<le> vl e'"
      by (meson leI)
    ultimately show ?thesis
      by simp
  qed
  have lt: "vl n < 99999999"
    using bound assms(2) by simp
  then have ex: "\<exists>e<Suc n. vl e < 99999999"
    by blast
  have earlier: "\<forall>e'<n. vl n < vl e'"
    using bound assms(2) by (meson less_le_trans)
  then have all: "\<forall>e'<Suc n. vl n \<le> vl e'"
    by (auto simp: less_Suc_eq less_imp_le)
  have "n < Suc n \<and> int n = int n \<and> vl n = vl n \<and> vl n < 99999999 \<and> (\<forall>e'<n. vl n < vl e') \<and>
        (\<forall>e'<Suc n. vl n \<le> vl e') \<and> d' best_pt = Some (wt n)"
    using lt earlier all assms(3) by simp
  then have "\<exists>e<Suc n. int n = int e \<and> vl e = vl n \<and> vl n < 99999999 \<and> (\<forall>e'<e. vl n < vl e') \<and>
        (\<forall>e'<Suc n. vl n \<le> vl e') \<and> d' best_pt = Some (wt e)"
    by blast
  with ex show ?thesis
    unfolding best_inv_def by simp
qed

lemma book_best_inv:
  "book vl wt epochs k n = (d, bl, be) \<Longrightarrow> best_inv vl wt n d bl be"
proof (induction n arbitrary: d bl be)
  case 0
  then show ?case
    using best_inv_0 [of vl wt] by simp
next
  case (Suc n)
  obtain d0 bl0 be0 where b: "book vl wt epochs k n = (d0, bl0, be0)"
    by (cases "book vl wt epochs k n") auto
  have inv: "best_inv vl wt n d0 bl0 be0"
    using Suc.IH b by simp
  define d1 where "d1 = (if periodic epochs k (int n) then d0(plan_name (int n) (vl n) \<mapsto> wt n) else d0)"
  have d1: "d1 best_pt = d0 best_pt"
    by (simp add: d1_def)
  show ?case
  proof (cases "vl n < bl0")
    case True
    with Suc.prems b have "d = d1(best_pt \<mapsto> wt n)" "bl = vl n" "be = int n"
      by (auto simp: d1_def Let_def)
    moreover have "best_inv vl wt (Suc n) (d1(best_pt \<mapsto> wt n)) (vl n) (int n)"
      by (rule best_inv_improve [OF inv True]) simp
    ultimately show ?thesis
      by (simp only:)
  next
    case False
    with Suc.prems b have "d = d1" "bl = bl0" "be = be0"
      by (auto simp: d1_def Let_def)
    moreover have "best_inv vl wt (Suc n) d1 bl0 be0"
      using inv False d1 by (rule best_inv_keep)
    ultimately show ?thesis
      by (simp only:)
  qed
qed

lemma book_plan_files:
  assumes "e < n" "periodic epochs k (int e)"
  shows "fst (book vl wt epochs k n) (plan_name (int e) (vl e)) = Some (wt e)"
  using assms
proof (induction n)
  case 0
  then show ?case by simp
next
  case (Suc n)
  obtain d0 bl0 be0 where b: "book vl wt epochs k n = (d0, bl0, be0)"
    by (cases "book vl wt epochs k n") auto
  show ?case
  proof (cases "e = n")
    case True
    with Suc.prems b show ?thesis
      by (simp add: Let_def)
  next
    case False
    with Suc.prems have "e < n"
      by simp
    with Suc.IH Suc.prems b have ih: "d0 (plan_name (int e) (vl e)) = Some (wt e)"
      by simp
    have "plan_name (int n) (vl n) \<noteq> plan_name (int e) (vl e)"
      using False plan_name_inj [of "int n" "vl n" "int e" "vl e"] by auto
    with ih b show ?thesis
      by (simp add: Let_def)
  qed
qed

lemma book_dom:
  "dom (fst (book vl wt epochs k n)) - {best_pt} =
     {plan_name (int e) (vl e) | e. e < n \<and> periodic epochs k (int e)}"
proof (induction n)
  case 0
  show ?case by simp
next
  case (Suc n)
  obtain d0 bl0 be0 where b: "book vl wt epochs k n = (d0, bl0, be0)"
    by (cases "book vl wt epochs k n") auto
  let ?S = "\<lambda>n. {plan_name (int e) (vl e) | e. e < n \<and> periodic epochs k (int e)}"
  have ih: "dom d0 - {best_pt} = ?S n"
    using Suc.IH b by simp
  have step: "?S (Suc n) = (if periodic epochs k (int n) then insert (plan_name (int n) (vl n)) (?S n) else ?S n)"
    by (auto simp: less_Suc_eq)
  have "dom (fst (book vl wt epochs k (Suc n))) - {best_pt} =
        (if periodic epochs k (int n) then insert (plan_name (int n) (vl n)) (dom d0 - {best_pt})
         else dom d0 - {best_pt})"
    using b by (auto simp: Let_def)
  with ih step show ?case
    by simp
qed

lemma book_best_loss:
  "fst (snd (book vl wt epochs k n)) = Min (insert 99999999 (vl ` {..<n}))"
proof (induction n)
  case 0
  show ?case by simp
next
  case (Suc n)
  obtain d0 bl0 be0 where b: "book vl wt epochs k n = (d0, bl0, be0)"
    by (cases "book vl wt epochs k n") auto
  define M where "M = Min (insert 99999999 (vl ` {..<n}))"
  define M' where "M' = Min (insert 99999999 (vl ` {..<Suc n}))"
  have "insert 99999999 (vl ` {..<Suc n}) = insert (vl n) (insert 99999999 (vl ` {..<n}))"
    by (auto simp: lessThan_Suc)
  then have m: "M' = min (vl n) M"
    unfolding M_def M'_def by (simp only: Min_insert finite_insert finite_imageI finite_lessThan insert_not_empty not_False_eq_True)
  have "bl0 = M"
    using Suc.IH b by (simp add: M_def)
  then have "fst (snd (book vl wt epochs k (Suc n))) = M'"
    using b m by (auto simp: Let_def min_def)
  then show ?case
    by (simp only: M'_def)
qed

lemma epoch_body_ok:
  assumes "tdl \<noteq> []" "vdl \<noteq> []" "k \<noteq> 0"
  shows "\<exists>a. snd (epoch_averages E metrics one_hot nc tdl vdl (model s)) = Inr a \<and>
    epoch_body E metrics one_hot nc tdl vdl epochs k epoch s =
     (let m1 = trained_model E metrics one_hot nc tdl vdl (model s);
          vl = epoch_valid_loss E metrics one_hot nc tdl vdl (model s);
          w = state_dict E m1;
          d = ckpt_dir (files s);
          d1 = (if periodic epochs k epoch then d(plan_name epoch vl \<mapsto> w) else d)
      in (\<lparr>model = scheduler_step E m1,
           files = (files s)\<lparr>ckpt_dir := (if vl < best_loss s then d1(best_pt \<mapsto> w) else d1),
                             logs_dir := append_file (logs_dir (files s)) ''trainval.log''
                                           (log_line E (map name metrics) epoch epochs a)\<rparr>,
           best_loss = (if vl < best_loss s then vl else best_loss s),
           best_epoch = (if vl < best_loss s then epoch else best_epoch s)\<rparr>, None))"
proof -
  obtain a where a: "epoch_averages E metrics one_hot nc tdl vdl (model s) =
           (trained_model E metrics one_hot nc tdl vdl (model s), Inr a)"
      "valid_loss a = epoch_valid_loss E metrics one_hot nc tdl vdl (model s)"
    using epoch_averages_ok [OF assms(1,2), of E metrics one_hot nc "model s"] by blast
  show ?thesis
    using assms(3) a
    by (cases s)
       (simp add: epoch_body_def checkpoint_step_def save_ckpt_def write_log_def periodic_def Let_def)
qed

lemma upto_snoc_nat: "[0..int (Suc n) - 1] = [0..int n - 1] @ [int n]"
  using upto_rec2 [of 0 "int n"] by simp

lemma train_loop_book:
  assumes "tdl \<noteq> []" "vdl \<noteq> []" "k \<noteq> 0"
    and "ckpt_dir (files s0) = Map.empty" "best_loss s0 = 99999999" "best_epoch s0 = 0"
  shows "\<exists>s. train_loop E metrics one_hot nc tdl vdl epochs k [0..int n - 1] s0 = (s, None) \<and>
           model s = model_at E metrics one_hot nc tdl vdl (model s0) n \<and>
           (ckpt_dir (files s), best_loss s, best_epoch s) =
             book (vloss_at E metrics one_hot nc tdl vdl (model s0))
                  (weights_at E metrics one_hot nc tdl vdl (model s0)) epochs k n \<and>
           ckpt_parent (files s) = ckpt_parent (files s0) \<and>
           logs_parent (files s) = logs_parent (files s0)"
proof (induction n)
  case 0
  show ?case
    using assms(4-6) by simp
next
  case (Suc n)
  then obtain s where s: "train_loop E metrics one_hot nc tdl vdl epochs k [0..int n - 1] s0 = (s, None)"
      "model s = model_at E metrics one_hot nc tdl vdl (model s0) n"
      "(ckpt_dir (files s), best_loss s, best_epoch s) =
             book (vloss_at E metrics one_hot nc tdl vdl (model s0))
                  (weights_at E metrics one_hot nc tdl vdl (model s0)) epochs k n"
      "ckpt_parent (files s) = ckpt_parent (files s0)"
      "logs_parent (files s) = logs_parent (files s0)"
    by blast
  obtain s' where s': "epoch_body E metrics one_hot nc tdl vdl epochs k (int n) s = (s', None)"
      "model s' = scheduler_step E (trained_model E metrics one_hot nc tdl vdl (model s))"
      "(ckpt_dir (files s'), best_loss s', best_epoch s') =
         (let vl = epoch_valid_loss E metrics one_hot nc tdl vdl (model s);
              w = state_dict E (trained_model E metrics one_hot nc tdl vdl (model s));
              d1 = (if periodic epochs k (int n) then (ckpt_dir (files s))(plan_name (int n) vl \<mapsto> w)
                    else ckpt_dir (files s))
          in if vl < best_loss s then (d1(best_pt \<mapsto> w), vl, int n) else (d1, best_loss s, best_epoch s))"
      "ckpt_parent (files s') = ckpt_parent (files s)"
      "logs_parent (files s') = logs_parent (files s)"
    using epoch_body_ok [OF assms(1-3), of E metrics one_hot nc s epochs "int n"]
    by (auto simp: Let_def)
  have run: "train_loop E metrics one_hot nc tdl vdl epochs k [0..int (Suc n) - 1] s0 = (s', None)"
    using s(1) s'(1) by (simp only: upto_snoc_nat train_loop_snoc) simp
  have bk: "(ckpt_dir (files s'), best_loss s', best_epoch s') =
             book (vloss_at E metrics one_hot nc tdl vdl (model s0))
                  (weights_at E metrics one_hot nc tdl vdl (model s0)) epochs k (Suc n)"
    using s'(3) s(2) s(3) [symmetric]
    by (simp add: vloss_at_def weights_at_def Let_def)
  show ?case
    using run bk s'(2,4,5) s(2,4,5) by simp
qed

lemma alloc_numbered:
  assumes "all_numbered listing"
  shows "\<exists>n. alloc_run_dir parent listing = Inr (parent @ ''/'' @ str_int n, str_int n, listing @ [str_int n])"
proof -
  have "\<And>s. s \<in> set listing \<Longrightarrow> py_int s \<noteq> None"
    using assms by (simp add: all_numbered_def list_all_iff)
  from alloc_run_dir_ok [of listing parent, OF this] show ?thesis
    by blast
qed

lemma train_after_alloc:
  assumes "all_numbered (ckpt_parent f)" "all_numbered (logs_parent f)"
  shows "\<exists>a b.
           train E tdl vdl m metrics epochs checkpoints logs k one_hot nc f =
             (case train_loop E metrics one_hot nc tdl vdl epochs k [0..epochs - 1]
                     (init_state m (f\<lparr>ckpt_parent := ckpt_parent f @ [str_int a], ckpt_dir := Map.empty,
                                       logs_parent := logs_parent f @ [str_int b], logs_dir := Map.empty\<rparr>)) of
                (s, Some e) \<Rightarrow> (s, Some e)
              | (s, None) \<Rightarrow> finish s)"
proof -
  obtain a where a: "alloc_run_dir checkpoints (ckpt_parent f) =
      Inr (checkpoints @ ''/'' @ str_int a, str_int a, ckpt_parent f @ [str_int a])"
    using alloc_numbered [OF assms(1)] by blast
  obtain b where b: "alloc_run_dir logs (logs_parent f) =
      Inr (logs @ ''/'' @ str_int b, str_int b, logs_parent f @ [str_int b])"
    using alloc_numbered [OF assms(2)] by blast
  have "train E tdl vdl m metrics epochs checkpoints logs k one_hot nc f =
             (case train_loop E metrics one_hot nc tdl vdl epochs k [0..epochs - 1]
                     (init_state m (f\<lparr>ckpt_parent := ckpt_parent f @ [str_int a], ckpt_dir := Map.empty,
                                       logs_parent := logs_parent f @ [str_int b], logs_dir := Map.empty\<rparr>)) of
                (s, Some e) \<Rightarrow> (s, Some e)
              | (s, None) \<Rightarrow> finish s)"
    using a b by (simp add: train_def alloc_ckpt_def alloc_logs_def)
  then show ?thesis
    by blast
qed

lemma upto_nat: "[0..epochs - 1] = [0..int (nat epochs) - 1]"
  by (cases "0 \<le> epochs") simp_all

lemma train_book:
  assumes "all_numbered (ckpt_parent f)" "all_numbered (logs_parent f)"
    and "tdl \<noteq> []" "vdl \<noteq> []" "k \<noteq> 0"
  shows "\<exists>s. (ckpt_dir (files s), best_loss s, best_epoch s) =
             book (vloss_at E metrics one_hot nc tdl vdl m)
                  (weights_at E metrics one_hot nc tdl vdl m) epochs k (nat epochs) \<and>
           train E tdl vdl m metrics epochs checkpoints logs k one_hot nc f = finish s"
proof -
  obtain a b where ab:
      "train E tdl vdl m metrics epochs checkpoints logs k one_hot nc f =
             (case train_loop E metrics one_hot nc tdl vdl epochs k [0..epochs - 1]
                     (init_state m (f\<lparr>ckpt_parent := ckpt_parent f @ [str_int a], ckpt_dir := Map.empty,
                                       logs_parent := logs_parent f @ [str_int b], logs_dir := Map.empty\<rparr>)) of
                (s, Some e) \<Rightarrow> (s, Some e)
              | (s, None) \<Rightarrow> finish s)"
    using train_after_alloc [OF assms(1,2), of E tdl vdl m metrics epochs checkpoints logs k one_hot nc]
    by blast
  define f2 where "f2 = f\<lparr>ckpt_parent := ckpt_parent f @ [str_int a], ckpt_dir := Map.empty,
                                       logs_parent := logs_parent f @ [str_int b], logs_dir := Map.empty\<rparr>"
  have f2: "ckpt_dir f2 = Map.empty"
      "train E tdl vdl m metrics epochs checkpoints logs k one_hot nc f =
             (case train_loop E metrics one_hot nc tdl vdl epochs k [0..epochs - 1] (init_state m f2) of
                (s, Some e) \<Rightarrow> (s, Some e)
              | (s, None) \<Rightarrow> finish s)"
    using ab by (simp_all add: f2_def)
  have i: "ckpt_dir (files (init_state m f2)) = Map.empty" "best_loss (init_state m f2) = 99999999"
      "best_epoch (init_state m f2) = 0" "model (init_state m f2) = m"
    using f2(1) by (simp_all add: init_state_def)
  obtain s where s: "train_loop E metrics one_hot nc tdl vdl epochs k [0..int (nat epochs) - 1] (init_state m f2) = (s, None)"
      "(ckpt_dir (files s), best_loss s, best_epoch s) =
             book (vloss_at E metrics one_hot nc tdl vdl m)
                  (weights_at E metrics one_hot nc tdl vdl m) epochs k (nat epochs)"
    using train_loop_book [OF assms(3-5) i(1-3), of E metrics one_hot nc epochs "nat epochs"] i(4)
    by auto
  have "train E tdl vdl m metrics epochs checkpoints logs k one_hot nc f = finish s"
    using f2(2) s(1) unfolding upto_nat [of epochs, symmetric] by simp
  with s(2) show ?thesis
    by blast
qed

lemma finish_eq:
  "finish s =
     (case ckpt_dir (files s) best_pt of
        None \<Rightarrow> (s, Some FileNotFoundError)
      | Some c \<Rightarrow>
          (s\<lparr>files := (files s)\<lparr>ckpt_dir := ((ckpt_dir (files s))(best_pt := None))
                                     (best_name (best_epoch s) (best_loss s) \<mapsto> c)\<rparr>\<rparr>, None))"
  by (simp add: finish_def rename_def split: option.splits)

lemma train_no_epochs:
  assumes "all_numbered (ckpt_parent f)" "all_numbered (logs_parent f)" "epochs \<le> 0"
  shows "snd (train E tdl vdl m metrics epochs checkpoints logs k one_hot nc f) = Some FileNotFoundError \<and>
         ckpt_dir (files (fst (train E tdl vdl m metrics epochs checkpoints logs k one_hot nc f))) = Map.empty \<and>
         best_loss (fst (train E tdl vdl m metrics epochs checkpoints logs k one_hot nc f)) = 99999999 \<and>
         best_epoch (fst (train E tdl vdl m metrics epochs checkpoints logs k one_hot nc f)) = 0"
proof -
  obtain a b where ab:
      "train E tdl vdl m metrics epochs checkpoints logs k one_hot nc f =
             (case train_loop E metrics one_hot nc tdl vdl epochs k [0..epochs - 1]
                     (init_state m (f\<lparr>ckpt_parent := ckpt_parent f @ [str_int a], ckpt_dir := Map.empty,
                                       logs_parent := logs_parent f @ [str_int b], logs_dir := Map.empty\<rparr>)) of
                (s, Some e) \<Rightarrow> (s, Some e)
              | (s, None) \<Rightarrow> finish s)"
    using train_after_alloc [OF assms(1,2), of E tdl vdl m metrics epochs checkpoints logs k one_hot nc]
    by blast
  have "[0..epochs - 1] = []"
    using assms(3) by simp
  then show ?thesis
    unfolding ab by (simp add: finish_eq init_state_def)
qed

lemma train_no_improvement:
  assumes "all_numbered (ckpt_parent f)" "all_numbered (logs_parent f)"
    and "tdl \<noteq> []" "vdl \<noteq> []" "k \<noteq> 0"
    and "\<forall>e<nat epochs. 99999999 \<le> vloss_at E metrics one_hot nc tdl vdl m e"
  shows "snd (train E tdl vdl m metrics epochs checkpoints logs k one_hot nc f) = Some FileNotFoundError \<and>
         ckpt_dir (files (fst (train E tdl vdl m metrics epochs checkpoints logs k one_hot nc f))) best_pt = None \<and>
         best_loss (fst (train E tdl vdl m metrics epochs checkpoints logs k one_hot nc f)) = 99999999 \<and>
         best_epoch (fst (train E tdl vdl m metrics epochs checkpoints logs k one_hot nc f)) = 0"
proof -
  let ?vl = "vloss_at E metrics one_hot nc tdl vdl m"
  let ?wt = "weights_at E metrics one_hot nc tdl vdl m"
  obtain s where s: "(ckpt_dir (files s), best_loss s, best_epoch s) = book ?vl ?wt epochs k (nat epochs)"
      "train E tdl vdl m metrics epochs checkpoints logs k one_hot nc f = finish s"
    using train_book [OF assms(1-5), of E metrics one_hot nc m epochs checkpoints logs] by blast
  have "best_inv ?vl ?wt (nat epochs) (ckpt_dir (files s)) (best_loss s) (best_epoch s)"
    using s(1) by (intro book_best_inv [of ?vl ?wt epochs k]) simp
  moreover have "\<not> (\<exists>e<nat epochs. ?vl e < 99999999)"
    using assms(6) by (auto simp: not_less)
  ultimately have "best_loss s = 99999999" "best_epoch s = 0" "ckpt_dir (files s) best_pt = None"
    unfolding best_inv_def by simp_all
  then show ?thesis
    unfolding s(2) by (simp add: finish_eq)
qed

lemma epoch_body_empty:
  assumes "tdl = [] \<or> vdl = []"
  shows "snd (epoch_body E metrics one_hot nc tdl vdl epochs k epoch s) = Some ZeroDivisionError \<and>
         files (fst (epoch_body E metrics one_hot nc tdl vdl epochs k epoch s)) = files s"
proof -
  have "snd (epoch_averages E metrics one_hot nc tdl vdl (model s)) = Inl ZeroDivisionError"
    using assms by (rule epoch_averages_empty)
  then show ?thesis
    by (cases "epoch_averages E metrics one_hot nc tdl vdl (model s)") (simp add: epoch_body_def)
qed

section \<open>The claims about missing checkpoints and empty data\<close>

text \<open>
  C9.  When both run directories can be allocated and either \<open>epochs\<close> is zero (or
  negative), or every epoch runs (no empty data loader, \<open>save_every\<close> not zero) and none
  has a validation loss below \<open>99999999.0\<close>, then \<open>best.pt\<close> is not in the checkpoint
  directory and \<open>train\<close> ends with the \<open>FileNotFoundError\<close> of the rename of line 155.
\<close>

theorem rename_fails_without_best:
  assumes "all_numbered (ckpt_parent f)" and "all_numbered (logs_parent f)"
    and "epochs \<le> 0 \<or>
         (tdl \<noteq> [] \<and> vdl \<noteq> [] \<and> k \<noteq> 0 \<and>
          (\<forall>e<nat epochs. 99999999 \<le> vloss_at E metrics one_hot nc tdl vdl m e))"
  shows "snd (train E tdl vdl m metrics epochs checkpoints logs k one_hot nc f) = Some FileNotFoundError \<and>
         ckpt_dir (files (fst (train E tdl vdl m metrics epochs checkpoints logs k one_hot nc f))) best_pt = None"
  using assms(3)
proof
  assume "epochs \<le> 0"
  from train_no_epochs [OF assms(1,2) this, of E tdl vdl m metrics checkpoints logs k one_hot nc]
  show ?thesis
    by simp
next
  assume h: "tdl \<noteq> [] \<and> vdl \<noteq> [] \<and> k \<noteq> 0 \<and>
          (\<forall>e<nat epochs. 99999999 \<le> vloss_at E metrics one_hot nc tdl vdl m e)"
  then have "tdl \<noteq> []" "vdl \<noteq> []" "k \<noteq> 0"
      "\<forall>e<nat epochs. 99999999 \<le> vloss_at E metrics one_hot nc tdl vdl m e"
    by simp_all
  from train_no_improvement [OF assms(1,2) this, of checkpoints logs]
  show ?thesis
    by simp
qed

theorem rename_fails_without_best_witness:
  "snd (train (scripted_env [100000000]) one_batch one_batch 0 [] 1 ''checkpoints'' ''logs'' 2 False 10
          (empty_fs\<lparr>ckpt_parent := [''0''], logs_parent := [''0'', ''1'']\<rparr>)) = Some FileNotFoundError
   \<and> ckpt_dir (files (fst (train (scripted_env [100000000]) one_batch one_batch 0 [] 1 ''checkpoints'' ''logs'' 2 False 10
          (empty_fs\<lparr>ckpt_parent := [''0''], logs_parent := [''0'', ''1'']\<rparr>)))) best_pt = None"
proof -
  have v: "vloss_at (scripted_env [100000000]) [] False 10 one_batch one_batch 0 0 = 100000000"
    by code_simp
  have a: "all_numbered (ckpt_parent (empty_fs\<lparr>ckpt_parent := [''0''], logs_parent := [''0'', ''1'']\<rparr>))"
    by code_simp
  have b: "all_numbered (logs_parent (empty_fs\<lparr>ckpt_parent := [''0''], logs_parent := [''0'', ''1'']\<rparr>))"
    by code_simp
  have c: "(1::int) \<le> 0 \<or>
         (one_batch \<noteq> [] \<and> one_batch \<noteq> [] \<and> (2::int) \<noteq> 0 \<and>
          (\<forall>e<nat 1. 99999999 \<le> vloss_at (scripted_env [100000000]) [] False 10 one_batch one_batch 0 e))"
    using v by (simp add: one_batch_def)
  show ?thesis
    using rename_fails_without_best [OF a b c] by simp
qed

text \<open>
  C10.  With an empty data loader the averaging step divides by zero: \<open>test\<close> raises
  \<open>ZeroDivisionError\<close> and writes no log; an epoch of \<open>train\<close> whose training or validation
  loader is empty raises it and leaves the files as they were; so \<open>train\<close> with at least
  one epoch raises it in its first epoch and writes no log.
\<close>

theorem empty_dataloader_division:
  "(all_numbered (logs_parent f) \<longrightarrow>
      snd (test E [] m metrics logs one_hot nc f) = Inl ZeroDivisionError \<and>
      logs_dir (fst (test E [] m metrics logs one_hot nc f)) = Map.empty)
   \<and> ((tdl = [] \<or> vdl = []) \<longrightarrow>
      snd (epoch_body E metrics one_hot nc tdl vdl epochs k epoch s) = Some ZeroDivisionError \<and>
      files (fst (epoch_body E metrics one_hot nc tdl vdl epochs k epoch s)) = files s)
   \<and> (all_numbered (ckpt_parent f) \<and> all_numbered (logs_parent f) \<and> 0 < epochs \<and> (tdl = [] \<or> vdl = []) \<longrightarrow>
      snd (train E tdl vdl m metrics epochs checkpoints logs k one_hot nc f) = Some ZeroDivisionError \<and>
      logs_dir (files (fst (train E tdl vdl m metrics epochs checkpoints logs k one_hot nc f))) = Map.empty)"
proof (intro conjI impI)
  assume "all_numbered (logs_parent f)"
  then obtain b where b: "alloc_run_dir logs (logs_parent f) =
      Inr (logs @ ''/'' @ str_int b, str_int b, logs_parent f @ [str_int b])"
    using alloc_numbered [of "logs_parent f" logs] by blast
  then show "snd (test E [] m metrics logs one_hot nc f) = Inl ZeroDivisionError"
    and "logs_dir (fst (test E [] m metrics logs one_hot nc f)) = Map.empty"
    by (simp_all add: test_def alloc_logs_def)
next
  assume "tdl = [] \<or> vdl = []"
  then show "snd (epoch_body E metrics one_hot nc tdl vdl epochs k epoch s) = Some ZeroDivisionError"
    and "files (fst (epoch_body E metrics one_hot nc tdl vdl epochs k epoch s)) = files s"
    using epoch_body_empty [of tdl vdl E metrics one_hot nc epochs k epoch s] by simp_all
next
  assume h: "all_numbered (ckpt_parent f) \<and> all_numbered (logs_parent f) \<and> 0 < epochs \<and> (tdl = [] \<or> vdl = [])"
  then obtain a b where ab:
      "train E tdl vdl m metrics epochs checkpoints logs k one_hot nc f =
             (case train_loop E metrics one_hot nc tdl vdl epochs k [0..epochs - 1]
                     (init_state m (f\<lparr>ckpt_parent := ckpt_parent f @ [str_int a], ckpt_dir := Map.empty,
                                       logs_parent := logs_parent f @ [str_int b], logs_dir := Map.empty\<rparr>)) of
                (s, Some e) \<Rightarrow> (s, Some e)
              | (s, None) \<Rightarrow> finish s)"
    using train_after_alloc [of f E tdl vdl m metrics epochs checkpoints logs k one_hot nc]
    by blast
  let ?s0 = "init_state m (f\<lparr>ckpt_parent := ckpt_parent f @ [str_int a], ckpt_dir := Map.empty,
                                       logs_parent := logs_parent f @ [str_int b], logs_dir := Map.empty\<rparr>)"
  have u: "[0..epochs - 1] = 0 # [1..epochs - 1]"
    using h upto_rec1 [of 0 "epochs - 1"] by simp
  obtain s' where s': "epoch_body E metrics one_hot nc tdl vdl epochs k 0 ?s0 = (s', Some ZeroDivisionError)"
      "files s' = files ?s0"
    using h epoch_body_empty [of tdl vdl E metrics one_hot nc epochs k 0 ?s0]
    by (cases "epoch_body E metrics one_hot nc tdl vdl epochs k 0 ?s0") auto
  have t: "train E tdl vdl m metrics epochs checkpoints logs k one_hot nc f = (s', Some ZeroDivisionError)"
    unfolding ab u using s'(1) by simp
  show "snd (train E tdl vdl m metrics epochs checkpoints logs k one_hot nc f) = Some ZeroDivisionError"
    using t by simp
  show "logs_dir (files (fst (train E tdl vdl m metrics epochs checkpoints logs k one_hot nc f))) = Map.empty"
    using t s'(2) by (simp add: init_state_def)
qed

theorem empty_dataloader_division_witness:
  "snd (test (scripted_env []) [] (0::nat) [] ''logs'' False 10 empty_fs) = Inl ZeroDivisionError
   \<and> snd (epoch_body (scripted_env []) [] False 10 [] one_batch 1 1 0 (init_state (0::nat) empty_fs))
       = Some ZeroDivisionError
   \<and> snd (train (scripted_env []) one_batch [] 0 [] 1 ''checkpoints'' ''logs'' 1 False 10 empty_fs)
       = Some ZeroDivisionError"
proof -
  have a: "all_numbered (ckpt_parent empty_fs)" "all_numbered (logs_parent empty_fs)"
    by code_simp+
  have "snd (test (scripted_env []) [] (0::nat) [] ''logs'' False 10 empty_fs) = Inl ZeroDivisionError"
    using empty_dataloader_division [THEN conjunct1, of empty_fs "scripted_env []" 0 "[]" "''logs''" False 10] a
    by simp
  moreover have "snd (epoch_body (scripted_env []) [] False 10 [] one_batch 1 1 0 (init_state (0::nat) empty_fs))
       = Some ZeroDivisionError"
    using empty_dataloader_division [THEN conjunct2, THEN conjunct1,
        of "[]" one_batch "scripted_env []" "[]" False 10 1 1 0 "init_state (0::nat) empty_fs"]
    by simp
  moreover have "snd (train (scripted_env []) one_batch [] 0 [] 1 ''checkpoints'' ''logs'' 1 False 10 empty_fs)
       = Some ZeroDivisionError"
    using empty_dataloader_division [THEN conjunct2, THEN conjunct2,
        of empty_fs 1 one_batch "[]" "scripted_env []" 0 "[]" "''checkpoints''" "''logs''" 1 False 10] a
    by simp
  ultimately show ?thesis
    by simp
qed

section \<open>Properties of the best checkpoint\<close>

lemma train_final:
  assumes "all_numbered (ckpt_parent f)" "all_numbered (logs_parent f)"
    and "tdl \<noteq> []" "vdl \<noteq> []" "k \<noteq> 0"
  shows "\<exists>d bl be.
           book (vloss_at E metrics one_hot nc tdl vdl m)
                (weights_at E metrics one_hot nc tdl vdl m) epochs k (nat epochs) = (d, bl, be) \<and>
           best_loss (fst (train E tdl vdl m metrics epochs checkpoints logs k one_hot nc f)) = bl \<and>
           best_epoch (fst (train E tdl vdl m metrics epochs checkpoints logs k one_hot nc f)) = be \<and>
           (case d best_pt of
              None \<Rightarrow>
                snd (train E tdl vdl m metrics epochs checkpoints logs k one_hot nc f) = Some FileNotFoundError \<and>
                ckpt_dir (files (fst (train E tdl vdl m metrics epochs checkpoints logs k one_hot nc f))) = d
            | Some c \<Rightarrow>
                snd (train E tdl vdl m metrics epochs checkpoints logs k one_hot nc f) = None \<and>
                ckpt_dir (files (fst (train E tdl vdl m metrics epochs checkpoints logs k one_hot nc f))) =
                  (d(best_pt := None))(best_name be bl \<mapsto> c))"
proof -
  obtain s where s: "(ckpt_dir (files s), best_loss s, best_epoch s) =
             book (vloss_at E metrics one_hot nc tdl vdl m)
                  (weights_at E metrics one_hot nc tdl vdl m) epochs k (nat epochs)"
      "train E tdl vdl m metrics epochs checkpoints logs k one_hot nc f = finish s"
    using train_book [OF assms, of E metrics one_hot nc m epochs checkpoints logs] by blast
  have "book (vloss_at E metrics one_hot nc tdl vdl m)
                (weights_at E metrics one_hot nc tdl vdl m) epochs k (nat epochs) =
          (ckpt_dir (files s), best_loss s, best_epoch s)"
    using s(1) by simp
  moreover have "best_loss (fst (finish s)) = best_loss s" "best_epoch (fst (finish s)) = best_epoch s"
    by (simp_all add: finish_eq split: option.splits)
  moreover have "case ckpt_dir (files s) best_pt of
              None \<Rightarrow> snd (finish s) = Some FileNotFoundError \<and> ckpt_dir (files (fst (finish s))) = ckpt_dir (files s)
            | Some c \<Rightarrow> snd (finish s) = None \<and>
                ckpt_dir (files (fst (finish s))) =
                  ((ckpt_dir (files s))(best_pt := None))(best_name (best_epoch s) (best_loss s) \<mapsto> c)"
    by (simp add: finish_eq split: option.splits)
  ultimately show ?thesis
    unfolding s(2) by blast
qed

lemma Min_with_sentinel:
  assumes "e < (n::nat)" "vl e < (c::rat)"
  shows "Min (insert c (vl ` {..<n})) = Min (vl ` {..<n})"
proof -
  have ne: "vl ` {..<n} \<noteq> {}" and fin: "finite (vl ` {..<n})"
    using assms(1) by auto
  have "Min (vl ` {..<n}) \<le> vl e"
    using assms(1) fin by (intro Min_le) auto
  then have "Min (vl ` {..<n}) \<le> c"
    using assms(2) by simp
  moreover have "Min (insert c (vl ` {..<n})) = min c (Min (vl ` {..<n}))"
    by (rule Min_insert [OF fin ne])
  ultimately show ?thesis
    by (simp only: min_def) simp
qed

lemma best_files_book:
  assumes "book vl wt epochs k n = (d, bl, be)"
  shows "{name \<in> dom d. prefix ''best'' name} = (if \<exists>e<n. vl e < 99999999 then {best_pt} else {})"
proof -
  have inv: "best_inv vl wt n d bl be"
    using assms by (rule book_best_inv)
  have dm: "dom d - {best_pt} = {plan_name (int e) (vl e) | e. e < n \<and> periodic epochs k (int e)}"
    using book_dom [of vl wt epochs k n] assms by simp
  have others: "\<not> prefix ''best'' name" if "name \<in> dom d" "name \<noteq> best_pt" for name
  proof -
    from that dm obtain e where "name = plan_name (int e) (vl e)"
      by blast
    then show ?thesis
      by simp
  qed
  show ?thesis
  proof (cases "\<exists>e<n. vl e < 99999999")
    case True
    with inv have "best_pt \<in> dom d"
      unfolding best_inv_def by auto
    with others True show ?thesis
      by auto
  next
    case False
    with inv have "best_pt \<notin> dom d"
      unfolding best_inv_def by auto
    with others False show ?thesis
      by auto
  qed
qed

lemma epoch_body_best:
  assumes "tdl \<noteq> []" "vdl \<noteq> []" "k \<noteq> 0"
  shows "snd (epoch_body E metrics one_hot nc tdl vdl epochs k epoch s) = None \<and>
         best_loss (fst (epoch_body E metrics one_hot nc tdl vdl epochs k epoch s)) =
           (if epoch_valid_loss E metrics one_hot nc tdl vdl (model s) < best_loss s
            then epoch_valid_loss E metrics one_hot nc tdl vdl (model s) else best_loss s) \<and>
         best_epoch (fst (epoch_body E metrics one_hot nc tdl vdl epochs k epoch s)) =
           (if epoch_valid_loss E metrics one_hot nc tdl vdl (model s) < best_loss s
            then epoch else best_epoch s) \<and>
         ckpt_dir (files (fst (epoch_body E metrics one_hot nc tdl vdl epochs k epoch s))) best_pt =
           (if epoch_valid_loss E metrics one_hot nc tdl vdl (model s) < best_loss s
            then Some (state_dict E (trained_model E metrics one_hot nc tdl vdl (model s)))
            else ckpt_dir (files s) best_pt)"
  using epoch_body_ok [OF assms, of E metrics one_hot nc s epochs epoch]
  by (auto simp: Let_def)

lemma train_best_final:
  assumes "all_numbered (ckpt_parent f)" "all_numbered (logs_parent f)"
    and "tdl \<noteq> []" "vdl \<noteq> []" "k \<noteq> 0"
    and "e0 < nat epochs" "vloss_at E metrics one_hot nc tdl vdl m e0 < 99999999"
  shows "\<exists>b<nat epochs.
           snd (train E tdl vdl m metrics epochs checkpoints logs k one_hot nc f) = None \<and>
           best_epoch (fst (train E tdl vdl m metrics epochs checkpoints logs k one_hot nc f)) = int b \<and>
           best_loss (fst (train E tdl vdl m metrics epochs checkpoints logs k one_hot nc f)) =
             vloss_at E metrics one_hot nc tdl vdl m b \<and>
           vloss_at E metrics one_hot nc tdl vdl m b =
             Min (vloss_at E metrics one_hot nc tdl vdl m ` {..<nat epochs}) \<and>
           (\<forall>e<b. vloss_at E metrics one_hot nc tdl vdl m b < vloss_at E metrics one_hot nc tdl vdl m e) \<and>
           ckpt_dir (files (fst (train E tdl vdl m metrics epochs checkpoints logs k one_hot nc f)))
               (best_name (int b) (vloss_at E metrics one_hot nc tdl vdl m b)) =
             Some (weights_at E metrics one_hot nc tdl vdl m b) \<and>
           ckpt_dir (files (fst (train E tdl vdl m metrics epochs checkpoints logs k one_hot nc f))) best_pt = None \<and>
           {name \<in> dom (ckpt_dir (files (fst (train E tdl vdl m metrics epochs checkpoints logs k one_hot nc f)))).
              prefix ''best'' name} =
             {best_name (int b) (vloss_at E metrics one_hot nc tdl vdl m b)}"
proof -
  let ?vl = "vloss_at E metrics one_hot nc tdl vdl m"
  let ?wt = "weights_at E metrics one_hot nc tdl vdl m"
  let ?T = "train E tdl vdl m metrics epochs checkpoints logs k one_hot nc f"
  let ?n = "nat epochs"
  obtain d bl be where bk: "book ?vl ?wt epochs k ?n = (d, bl, be)"
      and bs: "best_loss (fst ?T) = bl" "best_epoch (fst ?T) = be"
      and fin: "case d best_pt of
              None \<Rightarrow> snd ?T = Some FileNotFoundError \<and> ckpt_dir (files (fst ?T)) = d
            | Some c \<Rightarrow> snd ?T = None \<and>
                ckpt_dir (files (fst ?T)) = (d(best_pt := None))(best_name be bl \<mapsto> c)"
    using train_final [OF assms(1-5), of E metrics one_hot nc m epochs checkpoints logs] by blast
  have ex: "\<exists>e<?n. ?vl e < 99999999"
    using assms(6,7) by blast
  have "best_inv ?vl ?wt ?n d bl be"
    using bk by (rule book_best_inv)
  with ex obtain b where b: "b < ?n" "be = int b" "?vl b = bl" "bl < 99999999"
      "\<forall>e'<b. bl < ?vl e'" "\<forall>e'<?n. bl \<le> ?vl e'" "d best_pt = Some (?wt b)"
    unfolding best_inv_def by auto
  from fin b(7) have ok: "snd ?T = None"
      and cd: "ckpt_dir (files (fst ?T)) = (d(best_pt := None))(best_name be bl \<mapsto> ?wt b)"
    by simp_all
  have mn: "?vl b = Min (?vl ` {..<?n})"
  proof (rule Min_eqI [symmetric])
    show "finite (?vl ` {..<?n})"
      by simp
    show "\<And>y. y \<in> ?vl ` {..<?n} \<Longrightarrow> ?vl b \<le> y"
      using b(3,6) by auto
    show "?vl b \<in> ?vl ` {..<?n}"
      using b(1) by auto
  qed
  have dm: "dom d - {best_pt} = {plan_name (int e) (?vl e) | e. e < ?n \<and> periodic epochs k (int e)}"
    using book_dom [of ?vl ?wt epochs k ?n] bk by simp
  have others: "\<not> prefix ''best'' name" if "name \<in> dom d" "name \<noteq> best_pt" for name
  proof -
    from that dm obtain e where "name = plan_name (int e) (?vl e)"
      by blast
    then show ?thesis
      by simp
  qed
  have bf: "{name \<in> dom (ckpt_dir (files (fst ?T))). prefix ''best'' name} = {best_name (int b) (?vl b)}"
    unfolding cd using others b(2,3) by (auto split: if_splits)
  have lk: "ckpt_dir (files (fst ?T)) (best_name (int b) (?vl b)) = Some (?wt b)"
    unfolding cd using b(2,3) by simp
  have nb: "ckpt_dir (files (fst ?T)) best_pt = None"
    unfolding cd by simp
  show ?thesis
    using b(1) ok bs b(2,3) mn b(5) lk nb bf by (intro exI [of _ b]) simp
qed

lemma best_files_after:
  assumes "tdl \<noteq> []" "vdl \<noteq> []" "k \<noteq> 0"
    and "ckpt_dir (files s0) = Map.empty" "best_loss s0 = 99999999" "best_epoch s0 = 0"
  shows "{name \<in> dom (ckpt_dir (files (fst (train_loop E metrics one_hot nc tdl vdl epochs k [0..int n - 1] s0)))).
            prefix ''best'' name} =
         (if \<exists>e<n. vloss_at E metrics one_hot nc tdl vdl (model s0) e < 99999999 then {best_pt} else {})"
proof -
  obtain s where s: "train_loop E metrics one_hot nc tdl vdl epochs k [0..int n - 1] s0 = (s, None)"
      "(ckpt_dir (files s), best_loss s, best_epoch s) =
             book (vloss_at E metrics one_hot nc tdl vdl (model s0))
                  (weights_at E metrics one_hot nc tdl vdl (model s0)) epochs k n"
    using train_loop_book [OF assms, of E metrics one_hot nc epochs n] by blast
  from best_files_book [OF s(2) [symmetric]] s(1) show ?thesis
    by simp
qed

lemma train_best_files:
  assumes "all_numbered (ckpt_parent f)" "all_numbered (logs_parent f)"
    and "tdl \<noteq> []" "vdl \<noteq> []" "k \<noteq> 0"
  shows "{name \<in> dom (ckpt_dir (files (fst (train E tdl vdl m metrics epochs checkpoints logs k one_hot nc f)))).
            prefix ''best'' name} =
         (if \<exists>e<nat epochs. vloss_at E metrics one_hot nc tdl vdl m e < 99999999
          then {best_name (best_epoch (fst (train E tdl vdl m metrics epochs checkpoints logs k one_hot nc f)))
                          (best_loss (fst (train E tdl vdl m metrics epochs checkpoints logs k one_hot nc f)))}
          else {})"
proof (cases "\<exists>e<nat epochs. vloss_at E metrics one_hot nc tdl vdl m e < 99999999")
  case True
  then obtain e0 where e0: "e0 < nat epochs" "vloss_at E metrics one_hot nc tdl vdl m e0 < 99999999"
    by blast
  from train_best_final [OF assms e0, of checkpoints logs] True show ?thesis
    by auto
next
  case False
  let ?vl = "vloss_at E metrics one_hot nc tdl vdl m"
  let ?wt = "weights_at E metrics one_hot nc tdl vdl m"
  let ?T = "train E tdl vdl m metrics epochs checkpoints logs k one_hot nc f"
  obtain d bl be where bk: "book ?vl ?wt epochs k (nat epochs) = (d, bl, be)"
      and fin: "case d best_pt of
              None \<Rightarrow> snd ?T = Some FileNotFoundError \<and> ckpt_dir (files (fst ?T)) = d
            | Some c \<Rightarrow> snd ?T = None \<and>
                ckpt_dir (files (fst ?T)) = (d(best_pt := None))(best_name be bl \<mapsto> c)"
    using train_final [OF assms, of E metrics one_hot nc m epochs checkpoints logs] by blast
  have "best_inv ?vl ?wt (nat epochs) d bl be"
    using bk by (rule book_best_inv)
  with False have "d best_pt = None"
    unfolding best_inv_def by simp
  with fin have cd: "ckpt_dir (files (fst ?T)) = d"
    by simp
  have "{name \<in> dom d. prefix ''best'' name} = {}"
    using best_files_book [OF bk] False by (simp only: if_False)
  then show ?thesis
    unfolding cd using False by (simp only: if_False)
qed

lemma scripted_losses:
  "vloss_at (scripted_env [1 / 2, 3 / 10, 2 / 5]) [] False 10 one_batch one_batch 0 0 = 1 / 2"
  "vloss_at (scripted_env [1 / 2, 3 / 10, 2 / 5]) [] False 10 one_batch one_batch 0 1 = 3 / 10"
  "vloss_at (scripted_env [1 / 2, 3 / 10, 2 / 5]) [] False 10 one_batch one_batch 0 2 = 2 / 5"
  by code_simp+

lemma scripted_large_loss:
  "vloss_at (scripted_env [100000000]) [] False 10 one_batch one_batch 0 0 = 100000000"
  by code_simp

section \<open>The claims about the best checkpoint\<close>

text \<open>
  C1, as the code has it.  In an epoch that runs (no empty data loader, \<open>save_every\<close> not
  zero), a validation loss strictly below \<open>best_loss\<close> overwrites \<open>best.pt\<close> with the
  epoch's weights and sets \<open>best_loss\<close> and \<open>best_epoch\<close> to the epoch's; otherwise the
  three stay as they were.  When both run directories can be allocated and some epoch of
  the run has a validation loss below \<open>99999999.0\<close>, \<open>train\<close> ends without an exception,
  \<open>best_loss\<close> is the least validation loss of all epochs, \<open>best_epoch\<close> is the first epoch
  that attains it, \<open>best.pt\<close> is gone, and the only file whose name starts with \<open>best\<close> is
  \<open>best_{best_epoch}_{best_loss:.2f}.pt\<close>, holding that epoch's weights.
\<close>

theorem best_checkpoint:
  assumes "tdl \<noteq> []" and "vdl \<noteq> []" and "k \<noteq> 0"
  shows "(epoch_valid_loss E metrics one_hot nc tdl vdl (model s) < best_loss s \<longrightarrow>
            best_loss (fst (epoch_body E metrics one_hot nc tdl vdl epochs k epoch s)) =
              epoch_valid_loss E metrics one_hot nc tdl vdl (model s) \<and>
            best_epoch (fst (epoch_body E metrics one_hot nc tdl vdl epochs k epoch s)) = epoch \<and>
            ckpt_dir (files (fst (epoch_body E metrics one_hot nc tdl vdl epochs k epoch s))) best_pt =
              Some (state_dict E (trained_model E metrics one_hot nc tdl vdl (model s))))
       \<and> (\<not> epoch_valid_loss E metrics one_hot nc tdl vdl (model s) < best_loss s \<longrightarrow>
            best_loss (fst (epoch_body E metrics one_hot nc tdl vdl epochs k epoch s)) = best_loss s \<and>
            best_epoch (fst (epoch_body E metrics one_hot nc tdl vdl epochs k epoch s)) = best_epoch s \<and>
            ckpt_dir (files (fst (epoch_body E metrics one_hot nc tdl vdl epochs k epoch s))) best_pt =
              ckpt_dir (files s) best_pt)
       \<and> (all_numbered (ckpt_parent f) \<and> all_numbered (logs_parent f) \<and>
          e0 < nat epochs \<and> vloss_at E metrics one_hot nc tdl vdl m e0 < 99999999 \<longrightarrow>
          (\<exists>b<nat epochs.
             snd (train E tdl vdl m metrics epochs checkpoints logs k one_hot nc f) = None \<and>
             best_epoch (fst (train E tdl vdl m metrics epochs checkpoints logs k one_hot nc f)) = int b \<and>
             best_loss (fst (train E tdl vdl m metrics epochs checkpoints logs k one_hot nc f)) =
               vloss_at E metrics one_hot nc tdl vdl m b \<and>
             vloss_at E metrics one_hot nc tdl vdl m b =
               Min (vloss_at E metrics one_hot nc tdl vdl m ` {..<nat epochs}) \<and>
             (\<forall>e<b. vloss_at E metrics one_hot nc tdl vdl m b < vloss_at E metrics one_hot nc tdl vdl m e) \<and>
             ckpt_dir (files (fst (train E tdl vdl m metrics epochs checkpoints logs k one_hot nc f)))
                 (best_name (int b) (vloss_at E metrics one_hot nc tdl vdl m b)) =
               Some (weights_at E metrics one_hot nc tdl vdl m b) \<and>
             ckpt_dir (files (fst (train E tdl vdl m metrics epochs checkpoints logs k one_hot nc f))) best_pt = None \<and>
             {name \<in> dom (ckpt_dir (files (fst (train E tdl vdl m metrics epochs checkpoints logs k one_hot nc f)))).
                prefix ''best'' name} =
               {best_name (int b) (vloss_at E metrics one_hot nc tdl vdl m b)}))"
proof (intro conjI impI)
  assume "all_numbered (ckpt_parent f) \<and> all_numbered (logs_parent f) \<and>
          e0 < nat epochs \<and> vloss_at E metrics one_hot nc tdl vdl m e0 < 99999999"
  then have h: "all_numbered (ckpt_parent f)" "all_numbered (logs_parent f)"
      "e0 < nat epochs" "vloss_at E metrics one_hot nc tdl vdl m e0 < 99999999"
    by simp_all
  show "\<exists>b<nat epochs.
             snd (train E tdl vdl m metrics epochs checkpoints logs k one_hot nc f) = None \<and>
             best_epoch (fst (train E tdl vdl m metrics epochs checkpoints logs k one_hot nc f)) = int b \<and>
             best_loss (fst (train E tdl vdl m metrics epochs checkpoints logs k one_hot nc f)) =
               vloss_at E metrics one_hot nc tdl vdl m b \<and>
             vloss_at E metrics one_hot nc tdl vdl m b =
               Min (vloss_at E metrics one_hot nc tdl vdl m ` {..<nat epochs}) \<and>
             (\<forall>e<b. vloss_at E metrics one_hot nc tdl vdl m b < vloss_at E metrics one_hot nc tdl vdl m e) \<and>
             ckpt_dir (files (fst (train E tdl vdl m metrics epochs checkpoints logs k one_hot nc f)))
                 (best_name (int b) (vloss_at E metrics one_hot nc tdl vdl m b)) =
               Some (weights_at E metrics one_hot nc tdl vdl m b) \<and>
             ckpt_dir (files (fst (train E tdl vdl m metrics epochs checkpoints logs k one_hot nc f))) best_pt = None \<and>
             {name \<in> dom (ckpt_dir (files (fst (train E tdl vdl m metrics epochs checkpoints logs k one_hot nc f)))).
                prefix ''best'' name} =
               {best_name (int b) (vloss_at E metrics one_hot nc tdl vdl m b)}"
    by (rule train_best_final [OF h(1,2) assms h(3,4)])
qed (simp_all add: epoch_body_best [OF assms])

text \<open>The scripted run of three epochs with the validation losses 0.5, 0.3 and 0.4.\<close>

theorem best_checkpoint_witness:
  "best_loss (fst (epoch_body (scripted_env [1 / 2, 3 / 10, 2 / 5]) [] False 10 one_batch one_batch 3 2 0
                    (init_state 0 empty_fs))) = 1 / 2
   \<and> best_epoch (fst (epoch_body (scripted_env [1 / 2, 3 / 10, 2 / 5]) [] False 10 one_batch one_batch 3 2 0
                    (init_state 0 empty_fs))) = 0
   \<and> (\<exists>b<nat 3.
        snd (train (scripted_env [1 / 2, 3 / 10, 2 / 5]) one_batch one_batch 0 [] 3
               ''checkpoints'' ''logs'' 2 False 10 empty_fs) = None \<and>
        best_epoch (fst (train (scripted_env [1 / 2, 3 / 10, 2 / 5]) one_batch one_batch 0 [] 3
               ''checkpoints'' ''logs'' 2 False 10 empty_fs)) = int b \<and>
        vloss_at (scripted_env [1 / 2, 3 / 10, 2 / 5]) [] False 10 one_batch one_batch 0 b =
          Min (vloss_at (scripted_env [1 / 2, 3 / 10, 2 / 5]) [] False 10 one_batch one_batch 0 ` {..<nat 3}) \<and>
        {name \<in> dom (ckpt_dir (files (fst (train (scripted_env [1 / 2, 3 / 10, 2 / 5]) one_batch one_batch 0 [] 3
               ''checkpoints'' ''logs'' 2 False 10 empty_fs)))). prefix ''best'' name} =
          {best_name (int b) (vloss_at (scripted_env [1 / 2, 3 / 10, 2 / 5]) [] False 10 one_batch one_batch 0 b)})
   \<and> best_epoch (fst (train (scripted_env [1 / 2, 3 / 10, 2 / 5]) one_batch one_batch 0 [] 3
               ''checkpoints'' ''logs'' 2 False 10 empty_fs)) = 1
   \<and> best_loss (fst (train (scripted_env [1 / 2, 3 / 10, 2 / 5]) one_batch one_batch 0 [] 3
               ''checkpoints'' ''logs'' 2 False 10 empty_fs)) = 3 / 10"
proof -
  let ?E = "scripted_env [1 / 2, 3 / 10, 2 / 5]"
  have ne: "one_batch \<noteq> []" "(2::int) \<noteq> 0"
    by (simp_all add: one_batch_def)
  have v0: "epoch_valid_loss ?E [] False 10 one_batch one_batch (model (init_state 0 empty_fs)) = 1 / 2"
    by code_simp
  have b0: "best_loss (init_state (0::nat) empty_fs) = 99999999"
    by (simp add: init_state_def)
  have a: "all_numbered (ckpt_parent empty_fs)" "all_numbered (logs_parent empty_fs)"
    by code_simp+
  have v: "vloss_at ?E [] False 10 one_batch one_batch 0 0 = 1 / 2"
    by code_simp
  note inst = best_checkpoint [OF ne(1) ne(1) ne(2), of ?E "[]" False 10 "init_state 0 empty_fs" 3 0 empty_fs 0 0
      "''checkpoints''" "''logs''"]
  have 1: "best_loss (fst (epoch_body ?E [] False 10 one_batch one_batch 3 2 0 (init_state 0 empty_fs))) = 1 / 2"
      "best_epoch (fst (epoch_body ?E [] False 10 one_batch one_batch 3 2 0 (init_state 0 empty_fs))) = 0"
    using inst [THEN conjunct1] v0 b0 by simp_all
  have 2: "\<exists>b<nat 3.
        snd (train ?E one_batch one_batch 0 [] 3 ''checkpoints'' ''logs'' 2 False 10 empty_fs) = None \<and>
        best_epoch (fst (train ?E one_batch one_batch 0 [] 3 ''checkpoints'' ''logs'' 2 False 10 empty_fs)) = int b \<and>
        vloss_at ?E [] False 10 one_batch one_batch 0 b =
          Min (vloss_at ?E [] False 10 one_batch one_batch 0 ` {..<nat 3}) \<and>
        {name \<in> dom (ckpt_dir (files (fst (train ?E one_batch one_batch 0 [] 3
               ''checkpoints'' ''logs'' 2 False 10 empty_fs)))). prefix ''best'' name} =
          {best_name (int b) (vloss_at ?E [] False 10 one_batch one_batch 0 b)}"
    using inst [THEN conjunct2, THEN conjunct2] a v by auto
  have 3: "best_epoch (fst (train ?E one_batch one_batch 0 [] 3 ''checkpoints'' ''logs'' 2 False 10 empty_fs)) = 1"
    by code_simp
  have 4: "best_loss (fst (train ?E one_batch one_batch 0 [] 3 ''checkpoints'' ''logs'' 2 False 10 empty_fs)) = 3 / 10"
    by code_simp
  from 1 2 3 4 show ?thesis
    by (intro conjI)
qed

text \<open>
  C1 as stated fails when no validation loss is below the starting value of
  \<open>best_loss\<close>: in a run of one epoch whose validation loss is \<open>100000000\<close>, that loss is
  the least of the run, yet no file encodes it and \<open>train\<close> ends with the
  \<open>FileNotFoundError\<close> of the rename (the epoch did run: its periodic checkpoint is there).
\<close>

theorem best_checkpoint_counterexample:
  "vloss_at (scripted_env [100000000]) [] False 10 one_batch one_batch 0 0 = 100000000
   \<and> snd (train (scripted_env [100000000]) one_batch one_batch 0 [] 1
             ''checkpoints'' ''logs'' 1 False 10 empty_fs) = Some FileNotFoundError
   \<and> ckpt_dir (files (fst (train (scripted_env [100000000]) one_batch one_batch 0 [] 1
             ''checkpoints'' ''logs'' 1 False 10 empty_fs))) (best_name 0 100000000) = None
   \<and> ckpt_dir (files (fst (train (scripted_env [100000000]) one_batch one_batch 0 [] 1
             ''checkpoints'' ''logs'' 1 False 10 empty_fs))) (plan_name 0 100000000) = Some 1"
  by code_simp

text \<open>
  C7, as the code has it.  The checkpoint directory of a run starts empty.  After any
  number \<open>n\<close> of iterations of the epoch loop, the files whose names start with \<open>best\<close> are
  \<open>best.pt\<close> alone when one of these \<open>n\<close> epochs had a validation loss below \<open>99999999.0\<close>,
  and none otherwise; so there is never more than one.  After \<open>train\<close> has ended they are
  the renamed file alone, or none when no epoch had such a loss.
\<close>

theorem best_file_count:
  assumes "tdl \<noteq> []" and "vdl \<noteq> []" and "k \<noteq> 0"
  shows "(ckpt_dir f = Map.empty \<longrightarrow>
          {name \<in> dom (ckpt_dir (files (fst (train_loop E metrics one_hot nc tdl vdl epochs k
                                              [0..int n - 1] (init_state m f))))).
             prefix ''best'' name} =
          (if \<exists>e<n. vloss_at E metrics one_hot nc tdl vdl m e < 99999999 then {best_pt} else {}))
       \<and> (all_numbered (ckpt_parent f) \<and> all_numbered (logs_parent f) \<longrightarrow>
          {name \<in> dom (ckpt_dir (files (fst (train E tdl vdl m metrics epochs checkpoints logs k one_hot nc f)))).
             prefix ''best'' name} =
          (if \<exists>e<nat epochs. vloss_at E metrics one_hot nc tdl vdl m e < 99999999
           then {best_name (best_epoch (fst (train E tdl vdl m metrics epochs checkpoints logs k one_hot nc f)))
                           (best_loss (fst (train E tdl vdl m metrics epochs checkpoints logs k one_hot nc f)))}
           else {}))"
proof (intro conjI impI)
  assume "ckpt_dir f = Map.empty"
  then have i: "ckpt_dir (files (init_state m f)) = Map.empty" "best_loss (init_state m f) = 99999999"
      "best_epoch (init_state m f) = 0" "model (init_state m f) = m"
    by (simp_all add: init_state_def)
  from best_files_after [OF assms i(1-3), of E metrics one_hot nc epochs n] i(4)
  show "{name \<in> dom (ckpt_dir (files (fst (train_loop E metrics one_hot nc tdl vdl epochs k
                                              [0..int n - 1] (init_state m f))))).
             prefix ''best'' name} =
          (if \<exists>e<n. vloss_at E metrics one_hot nc tdl vdl m e < 99999999 then {best_pt} else {})"
    by simp
next
  assume "all_numbered (ckpt_parent f) \<and> all_numbered (logs_parent f)"
  then have h: "all_numbered (ckpt_parent f)" "all_numbered (logs_parent f)"
    by simp_all
  show "{name \<in> dom (ckpt_dir (files (fst (train E tdl vdl m metrics epochs checkpoints logs k one_hot nc f)))).
             prefix ''best'' name} =
          (if \<exists>e<nat epochs. vloss_at E metrics one_hot nc tdl vdl m e < 99999999
           then {best_name (best_epoch (fst (train E tdl vdl m metrics epochs checkpoints logs k one_hot nc f)))
                           (best_loss (fst (train E tdl vdl m metrics epochs checkpoints logs k one_hot nc f)))}
           else {})"
    by (rule train_best_files [OF h assms])
qed

text \<open>The scripted run after two epochs, and after \<open>train\<close> has ended.\<close>

theorem best_file_count_witness:
  "{name \<in> dom (ckpt_dir (files (fst (train_loop (scripted_env [1 / 2, 3 / 10, 2 / 5]) [] False 10
                                       one_batch one_batch 3 2 [0..int 2 - 1] (init_state 0 empty_fs))))).
      prefix ''best'' name} = {best_pt}
   \<and> {name \<in> dom (ckpt_dir (files (fst (train (scripted_env [1 / 2, 3 / 10, 2 / 5]) one_batch one_batch 0 [] 3
                                       ''checkpoints'' ''logs'' 2 False 10 empty_fs)))).
      prefix ''best'' name} = {''best_1_0.30.pt''}"
proof -
  let ?E = "scripted_env [1 / 2, 3 / 10, 2 / 5]"
  have ne: "one_batch \<noteq> []" "(2::int) \<noteq> 0"
    by (simp_all add: one_batch_def)
  have a: "all_numbered (ckpt_parent empty_fs)" "all_numbered (logs_parent empty_fs)"
      "ckpt_dir empty_fs = Map.empty"
    by (simp_all add: empty_fs_def all_numbered_def)
  have ex2: "\<exists>e<2. vloss_at ?E [] False 10 one_batch one_batch 0 e < 99999999"
    using scripted_losses(1) by (intro exI [of _ 0]) simp
  have ex3: "\<exists>e<nat 3. vloss_at ?E [] False 10 one_batch one_batch 0 e < 99999999"
    using scripted_losses(1) by (intro exI [of _ 0]) simp
  have be: "best_name (best_epoch (fst (train ?E one_batch one_batch 0 [] 3 ''checkpoints'' ''logs'' 2 False 10 empty_fs)))
                      (best_loss (fst (train ?E one_batch one_batch 0 [] 3 ''checkpoints'' ''logs'' 2 False 10 empty_fs)))
            = ''best_1_0.30.pt''"
    by code_simp
  note inst = best_file_count [OF ne(1) ne(1) ne(2), of empty_fs ?E "[]" False 10 3 2 0 "''checkpoints''" "''logs''"]
  have 1: "{name \<in> dom (ckpt_dir (files (fst (train_loop ?E [] False 10
                                       one_batch one_batch 3 2 [0..int 2 - 1] (init_state 0 empty_fs))))).
      prefix ''best'' name} = {best_pt}"
    using inst [THEN conjunct1] a(3) ex2 by simp
  have 2: "{name \<in> dom (ckpt_dir (files (fst (train ?E one_batch one_batch 0 [] 3
                                       ''checkpoints'' ''logs'' 2 False 10 empty_fs)))).
      prefix ''best'' name} = {''best_1_0.30.pt''}"
    using inst [THEN conjunct2] a(1,2) ex3 be by simp
  from 1 2 show ?thesis
    by (intro conjI)
qed

text \<open>
  C7 as stated fails at the start of the first epoch, where the checkpoint directory
  holds no file at all, and after an epoch whose validation loss is not below
  \<open>99999999.0\<close>.
\<close>

theorem best_file_count_counterexample:
  "{name \<in> dom (ckpt_dir (files (fst (train_loop (scripted_env [1 / 2, 3 / 10, 2 / 5]) [] False 10
                                       one_batch one_batch 3 2 [] (init_state 0 empty_fs))))).
      prefix ''best'' name} = {}
   \<and> {name \<in> dom (ckpt_dir (files (fst (train_loop (scripted_env [100000000]) [] False 10
                                       one_batch one_batch 1 1 [0] (init_state 0 empty_fs))))).
      prefix ''best'' name} = {}"
proof -
  have ne: "one_batch \<noteq> []" "(1::int) \<noteq> 0"
    by (simp_all add: one_batch_def)
  have i: "ckpt_dir (files (init_state (0::nat) empty_fs)) = Map.empty"
      "best_loss (init_state (0::nat) empty_fs) = 99999999"
      "best_epoch (init_state (0::nat) empty_fs) = 0" "model (init_state (0::nat) empty_fs) = 0"
    by (simp_all add: init_state_def empty_fs_def)
  have 1: "{name \<in> dom (ckpt_dir (files (fst (train_loop (scripted_env [1 / 2, 3 / 10, 2 / 5]) [] False 10
                                       one_batch one_batch 3 2 [] (init_state 0 empty_fs))))).
      prefix ''best'' name} = {}"
    using i(1) by simp
  have no: "\<not> (\<exists>e<1. vloss_at (scripted_env [100000000]) [] False 10 one_batch one_batch 0 e < 99999999)"
    using scripted_large_loss by simp
  have "[0..int 1 - 1] = [0]"
    by simp
  with best_files_after [OF ne(1) ne(1) ne(2) i(1-3), of "scripted_env [100000000]" "[]" False 10 1 1] i(4) no
  have 2: "{name \<in> dom (ckpt_dir (files (fst (train_loop (scripted_env [100000000]) [] False 10
                                       one_batch one_batch 1 1 [0] (init_state 0 empty_fs))))).
      prefix ''best'' name} = {}"
    by simp
  from 1 2 show ?thesis
    by (intro conjI)
qed

section \<open>Properties of the periodic checkpoints\<close>

lemma train_plan_lookup:
  assumes "all_numbered (ckpt_parent f)" "all_numbered (logs_parent f)"
    and "tdl \<noteq> []" "vdl \<noteq> []" "k \<noteq> 0"
  shows "ckpt_dir (files (fst (train E tdl vdl m metrics epochs checkpoints logs k one_hot nc f))) (plan_name e l) =
         fst (book (vloss_at E metrics one_hot nc tdl vdl m)
                   (weights_at E metrics one_hot nc tdl vdl m) epochs k (nat epochs)) (plan_name e l)"
proof -
  let ?T = "train E tdl vdl m metrics epochs checkpoints logs k one_hot nc f"
  obtain d bl be where bk: "book (vloss_at E metrics one_hot nc tdl vdl m)
                (weights_at E metrics one_hot nc tdl vdl m) epochs k (nat epochs) = (d, bl, be)"
      and fin: "case d best_pt of
              None \<Rightarrow> snd ?T = Some FileNotFoundError \<and> ckpt_dir (files (fst ?T)) = d
            | Some c \<Rightarrow> snd ?T = None \<and>
                ckpt_dir (files (fst ?T)) = (d(best_pt := None))(best_name be bl \<mapsto> c)"
    using train_final [OF assms, of E metrics one_hot nc m epochs checkpoints logs] by blast
  from fin have "ckpt_dir (files (fst ?T)) (plan_name e l) = d (plan_name e l)"
    by (cases "d best_pt") simp_all
  with bk show ?thesis
    by simp
qed

lemma train_dom_success:
  assumes "all_numbered (ckpt_parent f)" "all_numbered (logs_parent f)"
    and "tdl \<noteq> []" "vdl \<noteq> []" "k \<noteq> 0"
    and "snd (train E tdl vdl m metrics epochs checkpoints logs k one_hot nc f) = None"
  shows "dom (ckpt_dir (files (fst (train E tdl vdl m metrics epochs checkpoints logs k one_hot nc f)))) =
         insert (best_name (best_epoch (fst (train E tdl vdl m metrics epochs checkpoints logs k one_hot nc f)))
                           (best_loss (fst (train E tdl vdl m metrics epochs checkpoints logs k one_hot nc f))))
           {plan_name (int e) (vloss_at E metrics one_hot nc tdl vdl m e) | e.
              e < nat epochs \<and> periodic epochs k (int e)}"
proof -
  let ?T = "train E tdl vdl m metrics epochs checkpoints logs k one_hot nc f"
  let ?vl = "vloss_at E metrics one_hot nc tdl vdl m"
  let ?wt = "weights_at E metrics one_hot nc tdl vdl m"
  obtain d bl be where bk: "book ?vl ?wt epochs k (nat epochs) = (d, bl, be)"
      and bs: "best_loss (fst ?T) = bl" "best_epoch (fst ?T) = be"
      and fin: "case d best_pt of
              None \<Rightarrow> snd ?T = Some FileNotFoundError \<and> ckpt_dir (files (fst ?T)) = d
            | Some c \<Rightarrow> snd ?T = None \<and>
                ckpt_dir (files (fst ?T)) = (d(best_pt := None))(best_name be bl \<mapsto> c)"
    using train_final [OF assms(1-5), of E metrics one_hot nc m epochs checkpoints logs] by blast
  from fin assms(6) obtain c where c: "ckpt_dir (files (fst ?T)) = (d(best_pt := None))(best_name be bl \<mapsto> c)"
    by (cases "d best_pt") auto
  have dm: "dom d - {best_pt} = {plan_name (int e) (?vl e) | e. e < nat epochs \<and> periodic epochs k (int e)}"
    using book_dom [of ?vl ?wt epochs k "nat epochs"] bk by simp
  have "dom (ckpt_dir (files (fst ?T))) = insert (best_name be bl) (dom d - {best_pt})"
    unfolding c by auto
  with dm bs show ?thesis
    by simp
qed

lemma train_plan_iff:
  assumes "all_numbered (ckpt_parent f)" "all_numbered (logs_parent f)"
    and "tdl \<noteq> []" "vdl \<noteq> []" "k \<noteq> 0"
  shows "(\<exists>l. plan_name e l \<in> dom (ckpt_dir (files (fst (train E tdl vdl m metrics epochs checkpoints logs k one_hot nc f)))))
         \<longleftrightarrow> (0 \<le> e \<and> e < epochs \<and> (e mod k = 0 \<or> e = epochs - 1))"
proof
  let ?vl = "vloss_at E metrics one_hot nc tdl vdl m"
  let ?wt = "weights_at E metrics one_hot nc tdl vdl m"
  assume "\<exists>l. plan_name e l \<in> dom (ckpt_dir (files (fst (train E tdl vdl m metrics epochs checkpoints logs k one_hot nc f))))"
  then obtain l where "plan_name e l \<in> dom (fst (book ?vl ?wt epochs k (nat epochs)))"
    by (auto simp: dom_def train_plan_lookup [OF assms])
  then have "plan_name e l \<in> dom (fst (book ?vl ?wt epochs k (nat epochs))) - {best_pt}"
    by simp
  then obtain e' where e': "e' < nat epochs" "periodic epochs k (int e')" "plan_name e l = plan_name (int e') (?vl e')"
    unfolding book_dom by blast
  from e'(3) have "e = int e'"
    by (rule plan_name_inj)
  with e'(1,2) show "0 \<le> e \<and> e < epochs \<and> (e mod k = 0 \<or> e = epochs - 1)"
    by (auto simp: periodic_def)
next
  let ?vl = "vloss_at E metrics one_hot nc tdl vdl m"
  let ?wt = "weights_at E metrics one_hot nc tdl vdl m"
  assume h: "0 \<le> e \<and> e < epochs \<and> (e mod k = 0 \<or> e = epochs - 1)"
  then have "nat e < nat epochs" "periodic epochs k (int (nat e))" "int (nat e) = e"
    by (auto simp: periodic_def)
  from book_plan_files [OF this(1,2), of ?vl ?wt] this(3)
  have "fst (book ?vl ?wt epochs k (nat epochs)) (plan_name e (?vl (nat e))) = Some (?wt (nat e))"
    by simp
  then have "plan_name e (?vl (nat e)) \<in> dom (ckpt_dir (files (fst (train E tdl vdl m metrics epochs checkpoints logs k one_hot nc f))))"
    by (simp add: dom_def train_plan_lookup [OF assms])
  then show "\<exists>l. plan_name e l \<in> dom (ckpt_dir (files (fst (train E tdl vdl m metrics epochs checkpoints logs k one_hot nc f))))"
    by blast
qed

lemma train_plan_content:
  assumes "all_numbered (ckpt_parent f)" "all_numbered (logs_parent f)"
    and "tdl \<noteq> []" "vdl \<noteq> []" "k \<noteq> 0"
    and "0 \<le> e" "e < epochs" "e mod k = 0 \<or> e = epochs - 1"
  shows "ckpt_dir (files (fst (train E tdl vdl m metrics epochs checkpoints logs k one_hot nc f)))
           (plan_name e (vloss_at E metrics one_hot nc tdl vdl m (nat e))) =
         Some (weights_at E metrics one_hot nc tdl vdl m (nat e))"
proof -
  let ?vl = "vloss_at E metrics one_hot nc tdl vdl m"
  let ?wt = "weights_at E metrics one_hot nc tdl vdl m"
  have "nat e < nat epochs" "periodic epochs k (int (nat e))" "int (nat e) = e"
    using assms(6-8) by (auto simp: periodic_def)
  from book_plan_files [OF this(1,2), of ?vl ?wt] this(3)
  have "fst (book ?vl ?wt epochs k (nat epochs)) (plan_name e (?vl (nat e))) = Some (?wt (nat e))"
    by simp
  then show ?thesis
    by (simp add: train_plan_lookup [OF assms(1-5)])
qed

lemma scenario_dom:
  "dom (ckpt_dir (files (fst (train (scripted_env [1 / 2, 3 / 10, 2 / 5]) one_batch one_batch 0 [] 3
                                ''checkpoints'' ''logs'' 2 False 10 empty_fs)))) =
     {''plan_0_0.50.pt'', ''plan_2_0.40.pt'', ''best_1_0.30.pt''}"
proof -
  let ?E = "scripted_env [1 / 2, 3 / 10, 2 / 5]"
  let ?T = "train ?E one_batch one_batch 0 [] 3 ''checkpoints'' ''logs'' 2 False 10 empty_fs"
  have ne: "one_batch \<noteq> []" "(2::int) \<noteq> 0"
    by (simp_all add: one_batch_def)
  have a: "all_numbered (ckpt_parent empty_fs)" "all_numbered (logs_parent empty_fs)"
    by (simp_all add: empty_fs_def all_numbered_def)
  have ok: "snd ?T = None"
    by code_simp
  have be: "best_name (best_epoch (fst ?T)) (best_loss (fst ?T)) = ''best_1_0.30.pt''"
    by code_simp
  have lt: "e < nat 3 \<longleftrightarrow> e = 0 \<or> e = 1 \<or> e = 2" for e
    by auto
  have sel: "{e. e < nat 3 \<and> periodic 3 2 (int e)} = {0, 2}"
    unfolding lt by (auto simp: periodic_def)
  have "{plan_name (int e) (vloss_at ?E [] False 10 one_batch one_batch 0 e) | e.
              e < nat 3 \<and> periodic 3 2 (int e)} =
        (\<lambda>e. plan_name (int e) (vloss_at ?E [] False 10 one_batch one_batch 0 e)) `
          {e. e < nat 3 \<and> periodic 3 2 (int e)}"
    by auto
  also have "\<dots> = {plan_name 0 (vloss_at ?E [] False 10 one_batch one_batch 0 0),
             plan_name 2 (vloss_at ?E [] False 10 one_batch one_batch 0 2)}"
    unfolding sel by simp
  finally have "{plan_name (int e) (vloss_at ?E [] False 10 one_batch one_batch 0 e) | e.
              e < nat 3 \<and> periodic 3 2 (int e)} =
            {plan_name 0 (vloss_at ?E [] False 10 one_batch one_batch 0 0),
             plan_name 2 (vloss_at ?E [] False 10 one_batch one_batch 0 2)}" .
  then have ps: "{plan_name (int e) (vloss_at ?E [] False 10 one_batch one_batch 0 e) | e.
              e < nat 3 \<and> periodic 3 2 (int e)} =
            {plan_name 0 (1 / 2), plan_name 2 (2 / 5)}"
    by (simp only: scripted_losses)
  have pn: "plan_name 0 (1 / 2) = ''plan_0_0.50.pt''" "plan_name 2 (2 / 5) = ''plan_2_0.40.pt''"
    by code_simp+
  show ?thesis
    unfolding train_dom_success [OF a ne(1) ne(1) ne(2) ok] ps pn be by auto
qed

section \<open>The claim about the periodic checkpoints\<close>

text \<open>
  C2.  In a run whose directories can be allocated and whose epochs all run (no empty
  data loader, \<open>save_every\<close> not zero), the checkpoint directory that \<open>train\<close> leaves holds
  a file named \<open>plan_{e}_...\<close> exactly for the epochs \<open>e\<close> of the run with
  \<open>e % save_every == 0\<close> or \<open>e == epochs - 1\<close>; the file of such an epoch is named with
  the epoch's validation loss and holds the epoch's weights.  In the scripted run of
  three epochs with \<open>save_every = 2\<close> and the validation losses 0.5, 0.3 and 0.4, the
  directory holds the periodic checkpoints of the epochs 0 and 2 and the best checkpoint
  \<open>best_1_0.30.pt\<close>, and nothing else.
\<close>

theorem periodic_checkpoints:
  assumes "all_numbered (ckpt_parent f)" and "all_numbered (logs_parent f)"
    and "tdl \<noteq> []" and "vdl \<noteq> []" and "k \<noteq> 0"
  shows "((\<exists>l. plan_name e l \<in>
              dom (ckpt_dir (files (fst (train E tdl vdl m metrics epochs checkpoints logs k one_hot nc f)))))
          \<longleftrightarrow> (0 \<le> e \<and> e < epochs \<and> (e mod k = 0 \<or> e = epochs - 1)))
       \<and> (0 \<le> e \<and> e < epochs \<and> (e mod k = 0 \<or> e = epochs - 1) \<longrightarrow>
            ckpt_dir (files (fst (train E tdl vdl m metrics epochs checkpoints logs k one_hot nc f)))
              (plan_name e (vloss_at E metrics one_hot nc tdl vdl m (nat e))) =
            Some (weights_at E metrics one_hot nc tdl vdl m (nat e)))
       \<and> map (vloss_at (scripted_env [1 / 2, 3 / 10, 2 / 5]) [] False 10 one_batch one_batch 0) [0, 1, 2] =
            [1 / 2, 3 / 10, 2 / 5]
       \<and> snd (train (scripted_env [1 / 2, 3 / 10, 2 / 5]) one_batch one_batch 0 [] 3
                 ''checkpoints'' ''logs'' 2 False 10 empty_fs) = None
       \<and> dom (ckpt_dir (files (fst (train (scripted_env [1 / 2, 3 / 10, 2 / 5]) one_batch one_batch 0 [] 3
                                      ''checkpoints'' ''logs'' 2 False 10 empty_fs)))) =
            {''plan_0_0.50.pt'', ''plan_2_0.40.pt'', ''best_1_0.30.pt''}"
proof (intro conjI impI)
  show "(\<exists>l. plan_name e l \<in>
              dom (ckpt_dir (files (fst (train E tdl vdl m metrics epochs checkpoints logs k one_hot nc f)))))
          \<longleftrightarrow> (0 \<le> e \<and> e < epochs \<and> (e mod k = 0 \<or> e = epochs - 1))"
    by (rule train_plan_iff [OF assms])
next
  assume "0 \<le> e \<and> e < epochs \<and> (e mod k = 0 \<or> e = epochs - 1)"
  then have "0 \<le> e" "e < epochs" "e mod k = 0 \<or> e = epochs - 1"
    by simp_all
  then show "ckpt_dir (files (fst (train E tdl vdl m metrics epochs checkpoints logs k one_hot nc f)))
              (plan_name e (vloss_at E metrics one_hot nc tdl vdl m (nat e))) =
            Some (weights_at E metrics one_hot nc tdl vdl m (nat e))"
    by (rule train_plan_content [OF assms])
next
  show "map (vloss_at (scripted_env [1 / 2, 3 / 10, 2 / 5]) [] False 10 one_batch one_batch 0) [0, 1, 2] =
            [1 / 2, 3 / 10, 2 / 5]"
    by (simp only: list.map scripted_losses)
next
  show "snd (train (scripted_env [1 / 2, 3 / 10, 2 / 5]) one_batch one_batch 0 [] 3
                 ''checkpoints'' ''logs'' 2 False 10 empty_fs) = None"
    by code_simp
next
  show "dom (ckpt_dir (files (fst (train (scripted_env [1 / 2, 3 / 10, 2 / 5]) one_batch one_batch 0 [] 3
                                      ''checkpoints'' ''logs'' 2 False 10 empty_fs)))) =
            {''plan_0_0.50.pt'', ''plan_2_0.40.pt'', ''best_1_0.30.pt''}"
    by (rule scenario_dom)
qed

text \<open>In the scripted run, epoch 2 has a periodic checkpoint and epoch 1 has none.\<close>

theorem periodic_checkpoints_witness:
  "(\<exists>l. plan_name 2 l \<in>
           dom (ckpt_dir (files (fst (train (scripted_env [1 / 2, 3 / 10, 2 / 5]) one_batch one_batch 0 [] 3
                                        ''checkpoints'' ''logs'' 2 False 10 empty_fs)))))
   \<and> \<not> (\<exists>l. plan_name 1 l \<in>
           dom (ckpt_dir (files (fst (train (scripted_env [1 / 2, 3 / 10, 2 / 5]) one_batch one_batch 0 [] 3
                                        ''checkpoints'' ''logs'' 2 False 10 empty_fs)))))
   \<and> ckpt_dir (files (fst (train (scripted_env [1 / 2, 3 / 10, 2 / 5]) one_batch one_batch 0 [] 3
                                        ''checkpoints'' ''logs'' 2 False 10 empty_fs)))
        (plan_name 2 (vloss_at (scripted_env [1 / 2, 3 / 10, 2 / 5]) [] False 10 one_batch one_batch 0 (nat 2))) =
      Some (weights_at (scripted_env [1 / 2, 3 / 10, 2 / 5]) [] False 10 one_batch one_batch 0 (nat 2))"
proof -
  let ?E = "scripted_env [1 / 2, 3 / 10, 2 / 5]"
  have ne: "one_batch \<noteq> []" "(2::int) \<noteq> 0"
    by (simp_all add: one_batch_def)
  have a: "all_numbered (ckpt_parent empty_fs)" "all_numbered (logs_parent empty_fs)"
    by (simp_all add: empty_fs_def all_numbered_def)
  note inst = periodic_checkpoints [OF a ne(1) ne(1) ne(2),
      where E = ?E and m = 0 and metrics = "[]" and epochs = 3 and checkpoints = "''checkpoints''"
        and logs = "''logs''" and one_hot = False and nc = 10]
  have 1: "\<exists>l. plan_name 2 l \<in>
           dom (ckpt_dir (files (fst (train ?E one_batch one_batch 0 [] 3
                                        ''checkpoints'' ''logs'' 2 False 10 empty_fs))))"
    using inst [where e = 2, THEN conjunct1] by simp
  have 2: "\<not> (\<exists>l. plan_name 1 l \<in>
           dom (ckpt_dir (files (fst (train ?E one_batch one_batch 0 [] 3
                                        ''checkpoints'' ''logs'' 2 False 10 empty_fs)))))"
    using inst [where e = 1, THEN conjunct1] by simp
  have 3: "ckpt_dir (files (fst (train ?E one_batch one_batch 0 [] 3
                                        ''checkpoints'' ''logs'' 2 False 10 empty_fs)))
        (plan_name 2 (vloss_at ?E [] False 10 one_batch one_batch 0 (nat 2))) =
      Some (weights_at ?E [] False 10 one_batch one_batch 0 (nat 2))"
    using inst [where e = 2, THEN conjunct2, THEN conjunct1] by simp
  from 1 2 3 show ?thesis
    by (intro conjI)
qed

section \<open>Properties of the averages and of the starting state\<close>

lemma add_metrics_length: "length mvct = length metrics \<Longrightarrow> length (add_metrics metrics p l mvct) = length metrics"
  by (simp add: add_metrics_def)

lemma add_metrics_nth:
  "length mvct = length metrics \<Longrightarrow> i < length metrics \<Longrightarrow>
     add_metrics metrics p l mvct ! i = mvct ! i + calc (metrics ! i) p l"
  by (simp add: add_metrics_def)

lemma train_outputs_length: "length (train_outputs E one_hot nc dl m) = length dl"
  by (induction E one_hot nc dl m rule: train_outputs.induct) simp_all

lemma eval_outputs_length: "length (eval_outputs E one_hot nc m dl) = length dl"
  by (simp add: eval_outputs_def)

lemma train_pass_sums:
  assumes "length mvct = length metrics"
  shows "snd (train_pass E metrics one_hot nc dl (m, acc, mvct)) =
           (acc + loss_sum E (train_outputs E one_hot nc dl m),
            map (\<lambda>i. mvct ! i + metric_sum (metrics ! i) (train_outputs E one_hot nc dl m))
              [0..<length metrics])"
  using assms
proof (induction dl arbitrary: m acc mvct)
  case Nil
  then show ?case
    by (auto simp: loss_sum_def metric_sum_def intro: nth_equalityI)
next
  case (Cons b dl)
  obtain imgs labels where b: "b = (imgs, labels)"
    by (cases b) auto
  let ?l = "encode E one_hot nc labels"
  let ?p = "forward E Training m imgs"
  let ?mv = "add_metrics metrics ?p ?l mvct"
  have len: "length ?mv = length metrics"
    using Cons.prems by (rule add_metrics_length)
  have "snd (train_pass E metrics one_hot nc (b # dl) (m, acc, mvct)) =
        snd (train_pass E metrics one_hot nc dl (optimize E m imgs ?l, acc + loss_fn E ?p ?l, ?mv))"
    by (simp add: b Let_def)
  also have "\<dots> = (acc + loss_fn E ?p ?l + loss_sum E (train_outputs E one_hot nc dl (optimize E m imgs ?l)),
            map (\<lambda>i. ?mv ! i + metric_sum (metrics ! i) (train_outputs E one_hot nc dl (optimize E m imgs ?l)))
              [0..<length metrics])"
    by (rule Cons.IH [OF len])
  also have "\<dots> = (acc + loss_sum E (train_outputs E one_hot nc (b # dl) m),
            map (\<lambda>i. mvct ! i + metric_sum (metrics ! i) (train_outputs E one_hot nc (b # dl) m))
              [0..<length metrics])"
    using Cons.prems by (simp add: b loss_sum_def metric_sum_def add_metrics_nth algebra_simps)
  finally show ?case .
qed

lemma eval_pass_sums:
  assumes "length mvct = length metrics"
  shows "eval_pass E metrics one_hot nc m dl (acc, mvct) =
           (acc + loss_sum E (eval_outputs E one_hot nc m dl),
            map (\<lambda>i. mvct ! i + metric_sum (metrics ! i) (eval_outputs E one_hot nc m dl))
              [0..<length metrics])"
  using assms
proof (induction dl arbitrary: acc mvct)
  case Nil
  then show ?case
    by (auto simp: loss_sum_def metric_sum_def eval_outputs_def intro: nth_equalityI)
next
  case (Cons b dl)
  obtain imgs labels where b: "b = (imgs, labels)"
    by (cases b) auto
  let ?l = "encode E one_hot nc labels"
  let ?p = "forward E Evaluating m imgs"
  let ?mv = "add_metrics metrics ?p ?l mvct"
  have len: "length ?mv = length metrics"
    using Cons.prems by (rule add_metrics_length)
  have "eval_pass E metrics one_hot nc m (b # dl) (acc, mvct) =
        eval_pass E metrics one_hot nc m dl (acc + loss_fn E ?p ?l, ?mv)"
    by (simp add: b Let_def)
  also have "\<dots> = (acc + loss_fn E ?p ?l + loss_sum E (eval_outputs E one_hot nc m dl),
            map (\<lambda>i. ?mv ! i + metric_sum (metrics ! i) (eval_outputs E one_hot nc m dl))
              [0..<length metrics])"
    by (rule Cons.IH [OF len])
  also have "\<dots> = (acc + loss_sum E (eval_outputs E one_hot nc m (b # dl)),
            map (\<lambda>i. mvct ! i + metric_sum (metrics ! i) (eval_outputs E one_hot nc m (b # dl)))
              [0..<length metrics])"
    using Cons.prems by (simp add: b loss_sum_def metric_sum_def eval_outputs_def add_metrics_nth algebra_simps)
  finally show ?case .
qed

lemma map_index_metrics:
  "map (\<lambda>i. replicate (length metrics) (0::rat) ! i + g (metrics ! i)) [0..<length metrics] = map g metrics"
  by (rule nth_equalityI) simp_all

lemma epoch_averages_means:
  assumes "tdl \<noteq> []" "vdl \<noteq> []"
  shows "\<exists>a. epoch_averages E metrics one_hot nc tdl vdl m = (trained a, Inr a) \<and>
           trained a = trained_model E metrics one_hot nc tdl vdl m \<and>
           train_loss a = loss_sum E (train_outputs E one_hot nc tdl m) / of_nat (length tdl) \<and>
           valid_loss a = loss_sum E (eval_outputs E one_hot nc (trained a) vdl) / of_nat (length vdl) \<and>
           train_mvct a =
             map (\<lambda>metric. metric_sum metric (train_outputs E one_hot nc tdl m) / of_nat (length tdl)) metrics \<and>
           valid_mvct a =
             map (\<lambda>metric. metric_sum metric (eval_outputs E one_hot nc (trained a) vdl) / of_nat (length vdl))
               metrics"
proof -
  let ?z = "replicate (length metrics) (0::rat)"
  obtain m1 r where t: "train_pass E metrics one_hot nc tdl (m, 0, ?z) = (m1, r)"
    by (cases "train_pass E metrics one_hot nc tdl (m, 0, ?z)") auto
  have r: "r = (loss_sum E (train_outputs E one_hot nc tdl m),
                map (\<lambda>metric. metric_sum metric (train_outputs E one_hot nc tdl m)) metrics)"
    using train_pass_sums [of ?z metrics E one_hot nc tdl m 0] t
    by (simp add: map_index_metrics [of metrics "\<lambda>metric. metric_sum metric (train_outputs E one_hot nc tdl m)"])
  have v: "eval_pass E metrics one_hot nc m1 vdl (0, ?z) =
             (loss_sum E (eval_outputs E one_hot nc m1 vdl),
              map (\<lambda>metric. metric_sum metric (eval_outputs E one_hot nc m1 vdl)) metrics)"
    using eval_pass_sums [of ?z metrics E one_hot nc m1 vdl 0]
    by (simp add: map_index_metrics [of metrics "\<lambda>metric. metric_sum metric (eval_outputs E one_hot nc m1 vdl)"])
  let ?a = "\<lparr>trained = m1,
             train_loss = loss_sum E (train_outputs E one_hot nc tdl m) / of_nat (length tdl),
             valid_loss = loss_sum E (eval_outputs E one_hot nc m1 vdl) / of_nat (length vdl),
             train_mvct = map (\<lambda>metric. metric_sum metric (train_outputs E one_hot nc tdl m) / of_nat (length tdl)) metrics,
             valid_mvct = map (\<lambda>metric. metric_sum metric (eval_outputs E one_hot nc m1 vdl) / of_nat (length vdl)) metrics\<rparr>"
  have e: "epoch_averages E metrics one_hot nc tdl vdl m = (m1, Inr ?a)"
    using assms t r v by (simp add: epoch_averages_def comp_def)
  then have "trained_model E metrics one_hot nc tdl vdl m = m1"
    by (simp add: trained_model_def)
  with e show ?thesis
    by (intro exI [of _ ?a]) simp
qed

lemma epoch_body_log:
  assumes "tdl \<noteq> []" "vdl \<noteq> []" "k \<noteq> 0"
    and "epoch_averages E metrics one_hot nc tdl vdl (model s) = (m1, Inr a)"
  shows "logs_dir (files (fst (epoch_body E metrics one_hot nc tdl vdl epochs k epoch s))) =
           append_file (logs_dir (files s)) ''trainval.log'' (log_line E (map name metrics) epoch epochs a)"
  using epoch_body_ok [OF assms(1-3), of E metrics one_hot nc s epochs epoch] assms(4)
  by (auto simp: Let_def)

lemma epoch_body_best_le:
  "best_loss (fst (epoch_body E metrics one_hot nc tdl vdl epochs k epoch s)) \<le> best_loss s"
proof (cases "tdl \<noteq> [] \<and> vdl \<noteq> [] \<and> k \<noteq> 0")
  case True
  then have "tdl \<noteq> []" "vdl \<noteq> []" "k \<noteq> 0"
    by simp_all
  from epoch_body_best [OF this, of E metrics one_hot nc epochs epoch s] show ?thesis
    by simp
next
  case False
  then consider "tdl = [] \<or> vdl = []" | "tdl \<noteq> []" "vdl \<noteq> []" "k = 0"
    by blast
  then show ?thesis
  proof cases
    case 1
    from epoch_body_empty [OF this, of E metrics one_hot nc epochs k epoch s] show ?thesis
      by (cases "epoch_averages E metrics one_hot nc tdl vdl (model s)")
         (auto simp: epoch_body_def split: sum.splits)
  next
    case 2
    obtain a where "epoch_averages E metrics one_hot nc tdl vdl (model s) =
           (trained_model E metrics one_hot nc tdl vdl (model s), Inr a)"
      using epoch_averages_ok [OF 2(1,2), of E metrics one_hot nc "model s"] by blast
    with 2(3) show ?thesis
      by (simp add: epoch_body_def checkpoint_step_def)
  qed
qed

section \<open>The claims about the averages and the starting state\<close>

text \<open>
  C4.  In every epoch whose loaders are not empty, whatever the state the epoch starts
  from, the averaged training loss is the sum of the per-batch losses of the training
  pass divided by the number of training batches, the averaged validation loss is the
  sum over the validation batches divided by their number, and the same holds for every
  registered metric, in registration order; the line appended to \<open>trainval.log\<close> prints
  these averages.  Nothing of an earlier epoch enters: the accumulators start at zero.
  Sums and quotients are exact here; the rounding of float arithmetic is not modelled.
\<close>

theorem epoch_means:
  assumes "tdl \<noteq> []" and "vdl \<noteq> []"
  shows "\<exists>a. snd (epoch_averages E metrics one_hot nc tdl vdl (model s)) = Inr a \<and>
           trained a = trained_model E metrics one_hot nc tdl vdl (model s) \<and>
           train_loss a =
             loss_sum E (train_outputs E one_hot nc tdl (model s)) / of_nat (length tdl) \<and>
           valid_loss a =
             loss_sum E (eval_outputs E one_hot nc (trained a) vdl) / of_nat (length vdl) \<and>
           train_mvct a =
             map (\<lambda>metric. metric_sum metric (train_outputs E one_hot nc tdl (model s)) / of_nat (length tdl))
               metrics \<and>
           valid_mvct a =
             map (\<lambda>metric. metric_sum metric (eval_outputs E one_hot nc (trained a) vdl) / of_nat (length vdl))
               metrics \<and>
           length (train_outputs E one_hot nc tdl (model s)) = length tdl \<and>
           length (eval_outputs E one_hot nc (trained a) vdl) = length vdl \<and>
           (k \<noteq> 0 \<longrightarrow>
              logs_dir (files (fst (epoch_body E metrics one_hot nc tdl vdl epochs k epoch s))) =
                append_file (logs_dir (files s)) ''trainval.log''
                  (log_line E (map name metrics) epoch epochs a))"
proof -
  obtain a where a: "epoch_averages E metrics one_hot nc tdl vdl (model s) = (trained a, Inr a)"
      "trained a = trained_model E metrics one_hot nc tdl vdl (model s)"
      "train_loss a = loss_sum E (train_outputs E one_hot nc tdl (model s)) / of_nat (length tdl)"
      "valid_loss a = loss_sum E (eval_outputs E one_hot nc (trained a) vdl) / of_nat (length vdl)"
      "train_mvct a =
         map (\<lambda>metric. metric_sum metric (train_outputs E one_hot nc tdl (model s)) / of_nat (length tdl)) metrics"
      "valid_mvct a =
         map (\<lambda>metric. metric_sum metric (eval_outputs E one_hot nc (trained a) vdl) / of_nat (length vdl)) metrics"
    using epoch_averages_means [OF assms, of E metrics one_hot nc "model s"] by blast
  have lg: "logs_dir (files (fst (epoch_body E metrics one_hot nc tdl vdl epochs k epoch s))) =
                append_file (logs_dir (files s)) ''trainval.log''
                  (log_line E (map name metrics) epoch epochs a)" if "k \<noteq> 0"
    using epoch_body_log [OF assms that a(1)] .
  show ?thesis
    using a lg by (intro exI [of _ a]) (simp add: train_outputs_length eval_outputs_length)
qed

text \<open>
  An epoch of two training and two validation batches with one metric: the losses are
  0 and 1/2 in training and 3/10 twice in validation.
\<close>

theorem epoch_means_witness:
  "(\<exists>a. snd (epoch_averages (scripted_env [1 / 2, 3 / 10]) [count_metric] False 10 two_batches two_batches
               (model (init_state 0 empty_fs))) = Inr a \<and>
        train_loss a = 1 / 4 \<and> valid_loss a = 3 / 10 \<and> train_mvct a = [1 / 2] \<and> valid_mvct a = [2])
   \<and> logs_dir (files (fst (epoch_body (scripted_env [1 / 2, 3 / 10]) [count_metric] False 10
                              two_batches two_batches 3 2 0 (init_state 0 empty_fs)))) ''trainval.log'' =
       Some (''epoch: 1/3 train loss: 0.25 valid loss: 0.30 train_count: 0.50 valid_count: 2.00'' @ [CHR 0x0A])"
proof
  let ?E = "scripted_env [1 / 2, 3 / 10]"
  let ?m = "model (init_state (0::nat) empty_fs)"
  have ne: "two_batches \<noteq> []"
    by (simp add: two_batches_def)
  obtain a where a: "snd (epoch_averages ?E [count_metric] False 10 two_batches two_batches ?m) = Inr a"
      "trained a = trained_model ?E [count_metric] False 10 two_batches two_batches ?m"
      "train_loss a = loss_sum ?E (train_outputs ?E False 10 two_batches ?m) / of_nat (length two_batches)"
      "valid_loss a = loss_sum ?E (eval_outputs ?E False 10 (trained a) two_batches) / of_nat (length two_batches)"
      "train_mvct a =
         map (\<lambda>metric. metric_sum metric (train_outputs ?E False 10 two_batches ?m) / of_nat (length two_batches))
           [count_metric]"
      "valid_mvct a =
         map (\<lambda>metric. metric_sum metric (eval_outputs ?E False 10 (trained a) two_batches) / of_nat (length two_batches))
           [count_metric]"
    using epoch_means [OF ne ne, of ?E "[count_metric]" False 10 "init_state 0 empty_fs"] by blast
  have 1: "loss_sum ?E (train_outputs ?E False 10 two_batches ?m) / of_nat (length two_batches) = 1 / 4"
    by code_simp
  have 2: "loss_sum ?E (eval_outputs ?E False 10
             (trained_model ?E [count_metric] False 10 two_batches two_batches ?m) two_batches) /
           of_nat (length two_batches) = 3 / 10"
    by code_simp
  have 3: "map (\<lambda>metric. metric_sum metric (train_outputs ?E False 10 two_batches ?m) / of_nat (length two_batches))
           [count_metric] = [1 / 2]"
    by code_simp
  have 4: "map (\<lambda>metric. metric_sum metric (eval_outputs ?E False 10
             (trained_model ?E [count_metric] False 10 two_batches two_batches ?m) two_batches) /
             of_nat (length two_batches)) [count_metric] = [2]"
    by code_simp
  show "\<exists>a. snd (epoch_averages ?E [count_metric] False 10 two_batches two_batches ?m) = Inr a \<and>
        train_loss a = 1 / 4 \<and> valid_loss a = 3 / 10 \<and> train_mvct a = [1 / 2] \<and> valid_mvct a = [2]"
    using a 1 2 3 4 by (intro exI [of _ a]) (simp only: simp_thms)
  show "logs_dir (files (fst (epoch_body ?E [count_metric] False 10
                              two_batches two_batches 3 2 0 (init_state 0 empty_fs)))) ''trainval.log'' =
       Some (''epoch: 1/3 train loss: 0.25 valid loss: 0.30 train_count: 0.50 valid_count: 2.00'' @ [CHR 0x0A])"
    by code_simp
qed

text \<open>
  C6, as the code has it.  The loop starts from \<open>best_loss = 99999999.0\<close> and
  \<open>best_epoch = 0\<close>: \<open>train\<close> runs its loop from that state once the run directories are
  allocated, a run without epochs ends with these two values, and no iteration raises
  \<open>best_loss\<close>, so the starting values are never set again.
\<close>

theorem initial_best:
  "best_loss (init_state m f) = 99999999 \<and> best_epoch (init_state m f) = 0
   \<and> (all_numbered (ckpt_parent f) \<and> all_numbered (logs_parent f) \<longrightarrow>
        (\<exists>a b. train E tdl vdl m metrics epochs checkpoints logs k one_hot nc f =
           (case train_loop E metrics one_hot nc tdl vdl epochs k [0..epochs - 1]
                   (init_state m (f\<lparr>ckpt_parent := ckpt_parent f @ [str_int a], ckpt_dir := Map.empty,
                                     logs_parent := logs_parent f @ [str_int b], logs_dir := Map.empty\<rparr>)) of
              (s, Some e) \<Rightarrow> (s, Some e)
            | (s, None) \<Rightarrow> finish s)))
   \<and> (all_numbered (ckpt_parent f) \<and> all_numbered (logs_parent f) \<and> epochs \<le> 0 \<longrightarrow>
        best_loss (fst (train E tdl vdl m metrics epochs checkpoints logs k one_hot nc f)) = 99999999 \<and>
        best_epoch (fst (train E tdl vdl m metrics epochs checkpoints logs k one_hot nc f)) = 0)
   \<and> best_loss (fst (epoch_body E metrics one_hot nc tdl vdl epochs k epoch s)) \<le> best_loss s"
proof (intro conjI impI)
  assume "all_numbered (ckpt_parent f) \<and> all_numbered (logs_parent f)"
  then have "all_numbered (ckpt_parent f)" "all_numbered (logs_parent f)"
    by simp_all
  then show "\<exists>a b. train E tdl vdl m metrics epochs checkpoints logs k one_hot nc f =
           (case train_loop E metrics one_hot nc tdl vdl epochs k [0..epochs - 1]
                   (init_state m (f\<lparr>ckpt_parent := ckpt_parent f @ [str_int a], ckpt_dir := Map.empty,
                                     logs_parent := logs_parent f @ [str_int b], logs_dir := Map.empty\<rparr>)) of
              (s, Some e) \<Rightarrow> (s, Some e)
            | (s, None) \<Rightarrow> finish s)"
    by (rule train_after_alloc)
next
  assume h: "all_numbered (ckpt_parent f) \<and> all_numbered (logs_parent f) \<and> epochs \<le> 0"
  then have h': "all_numbered (ckpt_parent f)" "all_numbered (logs_parent f)" "epochs \<le> 0"
    by simp_all
  from train_no_epochs [OF h', of E tdl vdl m metrics checkpoints logs k one_hot nc]
  show "best_loss (fst (train E tdl vdl m metrics epochs checkpoints logs k one_hot nc f)) = 99999999"
    and "best_epoch (fst (train E tdl vdl m metrics epochs checkpoints logs k one_hot nc f)) = 0"
    by simp_all
next
  show "best_loss (fst (epoch_body E metrics one_hot nc tdl vdl epochs k epoch s)) \<le> best_loss s"
    by (rule epoch_body_best_le)
qed (simp_all add: init_state_def)

text \<open>A run with \<open>epochs = 0\<close>.\<close>

theorem initial_best_witness:
  "best_loss (fst (train (scripted_env [1 / 2]) one_batch one_batch 0 [] 0
                     ''checkpoints'' ''logs'' 1 False 10 empty_fs)) = 99999999
   \<and> best_epoch (fst (train (scripted_env [1 / 2]) one_batch one_batch 0 [] 0
                     ''checkpoints'' ''logs'' 1 False 10 empty_fs)) = 0"
proof -
  have a: "all_numbered (ckpt_parent empty_fs)" "all_numbered (logs_parent empty_fs)"
    by (simp_all add: empty_fs_def all_numbered_def)
  have "all_numbered (ckpt_parent empty_fs) \<and> all_numbered (logs_parent empty_fs) \<and> (0::int) \<le> 0 \<longrightarrow>
        best_loss (fst (train (scripted_env [1 / 2]) one_batch one_batch 0 [] 0
                     ''checkpoints'' ''logs'' 1 False 10 empty_fs)) = 99999999 \<and>
        best_epoch (fst (train (scripted_env [1 / 2]) one_batch one_batch 0 [] 0
                     ''checkpoints'' ''logs'' 1 False 10 empty_fs)) = 0"
    by (rule initial_best [THEN conjunct2, THEN conjunct2, THEN conjunct2, THEN conjunct1])
  with a show ?thesis
    by simp
qed

text \<open>
  C6 as stated fails: the starting \<open>best_epoch\<close> is 0, not -1, and the starting
  \<open>best_loss\<close> is the finite number 99999999, which the loss 100000000 is not below; a run
  of one epoch with that loss ends with both starting values unchanged.
\<close>

theorem initial_best_counterexample:
  "best_epoch (init_state (0::nat) empty_fs) \<noteq> - 1
   \<and> best_epoch (init_state (0::nat) empty_fs) = 0
   \<and> best_loss (init_state (0::nat) empty_fs) = 99999999
   \<and> \<not> (100000000 < best_loss (init_state (0::nat) empty_fs))
   \<and> best_epoch (fst (train (scripted_env [100000000]) one_batch one_batch 0 [] 1
                         ''checkpoints'' ''logs'' 1 False 10 empty_fs)) = 0
   \<and> best_loss (fst (train (scripted_env [100000000]) one_batch one_batch 0 [] 1
                         ''checkpoints'' ''logs'' 1 False 10 empty_fs)) = 99999999"
  by code_simp

section \<open>The parent directories during a run\<close>

lemma epoch_body_parents:
  "ckpt_parent (files (fst (epoch_body E metrics one_hot nc tdl vdl epochs k epoch s))) = ckpt_parent (files s) \<and>
   logs_parent (files (fst (epoch_body E metrics one_hot nc tdl vdl epochs k epoch s))) = logs_parent (files s)"
  by (auto simp: epoch_body_def checkpoint_step_def save_ckpt_def write_log_def Let_def
           split: prod.splits sum.splits)

lemma train_loop_parents:
  "ckpt_parent (files (fst (train_loop E metrics one_hot nc tdl vdl epochs k es s))) = ckpt_parent (files s) \<and>
   logs_parent (files (fst (train_loop E metrics one_hot nc tdl vdl epochs k es s))) = logs_parent (files s)"
proof (induction es arbitrary: s)
  case Nil
  show ?case by simp
next
  case (Cons e es)
  obtain s' r where b: "epoch_body E metrics one_hot nc tdl vdl epochs k e s = (s', r)"
    by (cases "epoch_body E metrics one_hot nc tdl vdl epochs k e s") auto
  have p: "ckpt_parent (files s') = ckpt_parent (files s)" "logs_parent (files s') = logs_parent (files s)"
    using epoch_body_parents [of E metrics one_hot nc tdl vdl epochs k e s] b by simp_all
  show ?case
  proof (cases r)
    case None
    with b Cons.IH [of s'] p show ?thesis
      by simp
  next
    case (Some x)
    with b p show ?thesis
      by simp
  qed
qed

lemma finish_parents:
  "ckpt_parent (files (fst (finish s))) = ckpt_parent (files s) \<and>
   logs_parent (files (fst (finish s))) = logs_parent (files s)"
  by (simp add: finish_eq split: option.splits)

lemma train_parents:
  assumes "alloc_run_dir checkpoints (ckpt_parent f) = Inr (cpath, cname, clisting)"
    and "alloc_run_dir logs (logs_parent f) = Inr (lpath, lname, llisting)"
  shows "ckpt_parent (files (fst (train E tdl vdl m metrics epochs checkpoints logs k one_hot nc f))) = clisting \<and>
         logs_parent (files (fst (train E tdl vdl m metrics epochs checkpoints logs k one_hot nc f))) = llisting"
proof -
  let ?f2 = "f\<lparr>ckpt_parent := clisting, ckpt_dir := Map.empty, logs_parent := llisting, logs_dir := Map.empty\<rparr>"
  let ?L = "train_loop E metrics one_hot nc tdl vdl epochs k [0..epochs - 1] (init_state m ?f2)"
  have t: "train E tdl vdl m metrics epochs checkpoints logs k one_hot nc f =
             (case ?L of (s, Some e) \<Rightarrow> (s, Some e) | (s, None) \<Rightarrow> finish s)"
    using assms by (simp add: train_def alloc_ckpt_def alloc_logs_def)
  have l: "ckpt_parent (files (fst ?L)) = clisting" "logs_parent (files (fst ?L)) = llisting"
    using train_loop_parents [of E metrics one_hot nc tdl vdl epochs k "[0..epochs - 1]" "init_state m ?f2"]
    by (simp_all add: init_state_def)
  obtain s r where sr: "?L = (s, r)"
    by (cases ?L) auto
  show ?thesis
  proof (cases r)
    case None
    with t sr l finish_parents [of s] show ?thesis
      by simp
  next
    case (Some x)
    with t sr l show ?thesis
      by simp
  qed
qed

section \<open>The claim about the next run directory\<close>

text \<open>
  C3.  When the children of the parent directory are exactly the decimal names of
  \<open>0, 1, ..., k\<close> (in any order), the block creates the child named \<open>k + 1\<close> and yields its
  path; in an empty parent it creates \<open>0\<close>.  \<open>train\<close> leaves that new child in its
  checkpoints parent and in its logs parent, and \<open>test\<close> leaves it in its logs parent and
  returns its path.
\<close>

theorem run_dir_next:
  assumes "0 \<le> k" and "set listing = str_int ` {0..k}"
  shows "alloc_run_dir parent listing =
           Inr (parent @ ''/'' @ str_int (k + 1), str_int (k + 1), listing @ [str_int (k + 1)])
       \<and> alloc_run_dir parent [] = Inr (parent @ ''/0'', ''0'', [''0''])
       \<and> (ckpt_parent f = listing \<and> all_numbered (logs_parent f) \<longrightarrow>
            ckpt_parent (files (fst (train E tdl vdl m metrics epochs parent logs save_every one_hot nc f))) =
              listing @ [str_int (k + 1)])
       \<and> (logs_parent f = listing \<and> all_numbered (ckpt_parent f) \<longrightarrow>
            logs_parent (files (fst (train E tdl vdl m metrics epochs checkpoints parent save_every one_hot nc f))) =
              listing @ [str_int (k + 1)])
       \<and> (logs_parent f = listing \<and> dl \<noteq> [] \<longrightarrow>
            snd (test E dl m metrics parent one_hot nc f) = Inr (parent @ ''/'' @ str_int (k + 1)) \<and>
            logs_parent (fst (test E dl m metrics parent one_hot nc f)) = listing @ [str_int (k + 1)])"
proof (intro conjI impI)
  show a: "alloc_run_dir parent listing =
           Inr (parent @ ''/'' @ str_int (k + 1), str_int (k + 1), listing @ [str_int (k + 1)])"
    by (rule alloc_upto [OF assms(2,1)])
  show "alloc_run_dir parent [] = Inr (parent @ ''/0'', ''0'', [''0''])"
    by (rule alloc_empty)
  {
    assume h: "ckpt_parent f = listing \<and> all_numbered (logs_parent f)"
    then obtain b where b: "alloc_run_dir logs (logs_parent f) =
        Inr (logs @ ''/'' @ str_int b, str_int b, logs_parent f @ [str_int b])"
      using alloc_numbered [of "logs_parent f" logs] by blast
    from a h have x: "alloc_run_dir parent (ckpt_parent f) =
           Inr (parent @ ''/'' @ str_int (k + 1), str_int (k + 1), listing @ [str_int (k + 1)])"
      by simp
    show "ckpt_parent (files (fst (train E tdl vdl m metrics epochs parent logs save_every one_hot nc f))) =
              listing @ [str_int (k + 1)]"
      by (rule train_parents [OF x b, THEN conjunct1])
  }
  {
    assume h: "logs_parent f = listing \<and> all_numbered (ckpt_parent f)"
    then obtain c where c: "alloc_run_dir checkpoints (ckpt_parent f) =
        Inr (checkpoints @ ''/'' @ str_int c, str_int c, ckpt_parent f @ [str_int c])"
      using alloc_numbered [of "ckpt_parent f" checkpoints] by blast
    from a h have y: "alloc_run_dir parent (logs_parent f) =
           Inr (parent @ ''/'' @ str_int (k + 1), str_int (k + 1), listing @ [str_int (k + 1)])"
      by simp
    show "logs_parent (files (fst (train E tdl vdl m metrics epochs checkpoints parent save_every one_hot nc f))) =
              listing @ [str_int (k + 1)]"
      by (rule train_parents [OF c y, THEN conjunct2])
  }
  {
    assume h: "logs_parent f = listing \<and> dl \<noteq> []"
    with a show "snd (test E dl m metrics parent one_hot nc f) = Inr (parent @ ''/'' @ str_int (k + 1))"
      and "logs_parent (fst (test E dl m metrics parent one_hot nc f)) = listing @ [str_int (k + 1)]"
      by (simp_all add: test_def alloc_logs_def Let_def split: prod.splits)
  }
qed

text \<open>A parent holding \<open>1\<close>, \<open>0\<close> and \<open>2\<close>: the new child is \<open>3\<close>.\<close>

theorem run_dir_next_witness:
  "alloc_run_dir ''logs'' [''1'', ''0'', ''2''] = Inr (''logs/3'', ''3'', [''1'', ''0'', ''2'', ''3''])
   \<and> ckpt_parent (files (fst (train (scripted_env [1 / 2]) one_batch one_batch 0 [] 1 ''checkpoints'' ''logs''
                                 1 False 10 (empty_fs\<lparr>ckpt_parent := [''1'', ''0'', ''2'']\<rparr>)))) =
       [''1'', ''0'', ''2'', ''3'']"
proof -
  have "{0..2::int} = {0, 1, 2}"
    by auto
  then have s: "set [''1'', ''0'', ''2''] = str_int ` {0..2}"
    by (simp add: str_int_def str_pos.simps digit_char_def insert_commute)
  have three: "str_int 3 = ''3''"
    by (simp add: str_int_def str_pos.simps digit_char_def)
  have "alloc_run_dir ''logs'' [''1'', ''0'', ''2''] =
      Inr (''logs'' @ ''/'' @ str_int (2 + 1), str_int (2 + 1), [''1'', ''0'', ''2''] @ [str_int (2 + 1)])"
    by (rule run_dir_next [THEN conjunct1, OF _ s]) simp
  then have 1: "alloc_run_dir ''logs'' [''1'', ''0'', ''2''] = Inr (''logs/3'', ''3'', [''1'', ''0'', ''2'', ''3''])"
    by (simp add: three)
  have "ckpt_parent (empty_fs\<lparr>ckpt_parent := [''1'', ''0'', ''2'']\<rparr>) = [''1'', ''0'', ''2''] \<and>
        all_numbered (logs_parent (empty_fs\<lparr>ckpt_parent := [''1'', ''0'', ''2'']\<rparr>)) \<longrightarrow>
        ckpt_parent (files (fst (train (scripted_env [1 / 2]) one_batch one_batch 0 [] 1 ''checkpoints'' ''logs''
                                 1 False 10 (empty_fs\<lparr>ckpt_parent := [''1'', ''0'', ''2'']\<rparr>)))) =
          [''1'', ''0'', ''2''] @ [str_int (2 + 1)]"
    by (rule run_dir_next [THEN conjunct2, THEN conjunct2, THEN conjunct1, OF _ s]) simp
  then have 2: "ckpt_parent (files (fst (train (scripted_env [1 / 2]) one_batch one_batch 0 [] 1 ''checkpoints'' ''logs''
                                 1 False 10 (empty_fs\<lparr>ckpt_parent := [''1'', ''0'', ''2'']\<rparr>)))) =
       [''1'', ''0'', ''2'', ''3'']"
    by (simp add: three empty_fs_def all_numbered_def)
  from 1 2 show ?thesis
    by (intro conjI)
qed

end
